(* ===== verification/Prelude.thy ===== *)
theory Prelude
  imports Complex_Main
begin

text \<open>
  Shared vocabulary of the pricing library model.  Python floats are modelled as
  \<^typ>\<open>real\<close> (no rounding, no overflow), calendar dates as \<^typ>\<open>int\<close> day ordinals
  (so that \<open>(d1 - d2).days\<close> is integer subtraction), and every exception the
  code can raise as an \<open>Inl\<close> value of \<open>py_error + 'a\<close>.  The Python primitives
  that can raise (\<open>/\<close>, \<open>math.log\<close>, \<open>math.sqrt\<close>) get checked versions here,
  together with the inequalities on \<open>exp\<close> that the Turnbull-Wakeman moment bounds
  rest on.
\<close>

named_theorems py_simps "evaluation rules of the checked Python primitives"

type_synonym date = int

datatype py_error =
    InvalidOptionType   \<comment> \<open>\<open>ValueError("Unknown option type ...")\<close>\<close>
  | MathDomainError     \<comment> \<open>\<open>ValueError: math domain error\<close> of log and sqrt\<close>
  | ZeroDivisionError

definition sum_bind :: "'e + 'a \<Rightarrow> ('a \<Rightarrow> 'e + 'b) \<Rightarrow> 'e + 'b" where
  "sum_bind m f = (case m of Inl e \<Rightarrow> Inl e | Inr a \<Rightarrow> f a)"

text \<open>Python's float division, \<open>math.log\<close> and \<open>math.sqrt\<close>.\<close>

definition py_div :: "real \<Rightarrow> real \<Rightarrow> py_error + real" where
  "py_div a b = (if b = 0 then Inl ZeroDivisionError else Inr (a / b))"

definition py_log :: "real \<Rightarrow> py_error + real" where
  "py_log a = (if a \<le> 0 then Inl MathDomainError else Inr (ln a))"

definition py_sqrt :: "real \<Rightarrow> py_error + real" where
  "py_sqrt a = (if a < 0 then Inl MathDomainError else Inr (sqrt a))"

subsection \<open>The error monad\<close>

lemma sum_bind_Inl [simp]: "sum_bind (Inl e) f = Inl e"
  by (simp add: sum_bind_def)

lemma sum_bind_Inr [simp]: "sum_bind (Inr a) f = f a"
  by (simp add: sum_bind_def)

lemma sum_bind_Inr_map: "sum_bind m (\<lambda>a. Inr (f a)) = map_sum id f m"
  by (cases m) simp_all

lemma sum_bind_eq_Inr:
  "sum_bind m f = Inr b \<longleftrightarrow> (\<exists>a. m = Inr a \<and> f a = Inr b)"
  by (cases m) simp_all

lemma sum_bind_eq_Inl:
  "sum_bind m f = Inl e \<longleftrightarrow> m = Inl e \<or> (\<exists>a. m = Inr a \<and> f a = Inl e)"
  by (cases m) simp_all

subsection \<open>Checked primitives\<close>

lemma py_div_nonzero [py_simps]: "b \<noteq> 0 \<Longrightarrow> py_div a b = Inr (a / b)"
  by (simp add: py_div_def)

lemma py_div_zero [py_simps]: "py_div a 0 = Inl ZeroDivisionError"
  by (simp add: py_div_def)

lemma py_log_pos [py_simps]: "0 < a \<Longrightarrow> py_log a = Inr (ln a)"
  by (simp add: py_log_def)

lemma py_log_nonpos [py_simps]: "a \<le> 0 \<Longrightarrow> py_log a = Inl MathDomainError"
  by (simp add: py_log_def)

lemma py_sqrt_nonneg [py_simps]: "0 \<le> a \<Longrightarrow> py_sqrt a = Inr (sqrt a)"
  by (simp add: py_sqrt_def)

lemma py_sqrt_neg [py_simps]: "a < 0 \<Longrightarrow> py_sqrt a = Inl MathDomainError"
  by (simp add: py_sqrt_def)

subsection \<open>Arithmetic facts\<close>

lemma max_zero_parity: "max 0 y - max 0 (- y) = (y::real)"
  by (simp add: max_def)

lemma max_zero_mult_pos: "0 < c \<Longrightarrow> max 0 (a * c) = max 0 a * (c::real)"
  by (cases "0 \<le> a") (auto simp: max_def zero_le_mult_iff)

subsection \<open>Inequalities on the exponential\<close>

text \<open>
  Each is proved from the sign of a derivative (\<open>DERIV_nonneg_imp_nondecreasing\<close>);
  they bound the raw second moment of the arithmetic average in \<open>AsianOptions\<close>.
\<close>

lemma exp_quadratic_lower:
  fixes d :: real
  assumes "0 \<le> d"
  shows "1 + d + d\<^sup>2 / 2 \<le> exp d"
proof -
  let ?f = "\<lambda>x::real. exp x - 1 - x - x\<^sup>2 / 2"
  have "?f 0 \<le> ?f d"
  proof (rule DERIV_nonneg_imp_nondecreasing [OF assms])
    fix x :: real
    show "\<exists>y. DERIV ?f x :> y \<and> 0 \<le> y"
    proof (intro exI conjI)
      show "DERIV ?f x :> exp x - 1 - x"
        by (auto intro!: derivative_eq_intros)
      show "0 \<le> exp x - 1 - x"
        using exp_ge_add_one_self [of x] by linarith
    qed
  qed
  then show ?thesis by simp
qed

lemma exp_quadratic_lower_strict:
  fixes d :: real
  assumes "0 < d"
  shows "1 + d + d\<^sup>2 / 2 < exp d"
proof -
  let ?f = "\<lambda>x::real. exp x - 1 - x - x\<^sup>2 / 2"
  have "?f 0 < ?f d"
  proof (rule DERIV_pos_imp_increasing_open [OF assms])
    fix x :: real
    assume x: "0 < x" "x < d"
    show "\<exists>y. DERIV ?f x :> y \<and> 0 < y"
    proof (intro exI conjI)
      show "DERIV ?f x :> exp x - 1 - x"
        by (auto intro!: derivative_eq_intros)
      have "1 + x + x\<^sup>2 / 2 \<le> exp x"
        using x by (intro exp_quadratic_lower) simp
      moreover have "0 < x\<^sup>2 / 2" using x by simp
      ultimately show "0 < exp x - 1 - x" by linarith
    qed
  next
    show "continuous_on {0..d} ?f"
      by (intro continuous_intros) simp
  qed
  then show ?thesis by simp
qed

lemma exp_moment_upper:
  fixes d :: real
  assumes "0 \<le> d"
  shows "2 * (exp d - 1 - d) \<le> d\<^sup>2 * exp d"
proof -
  let ?k1 = "\<lambda>x::real. exp x * (x\<^sup>2 + 2 * x - 2) + 2"
  let ?k = "\<lambda>x::real. x\<^sup>2 * exp x - 2 * exp x + 2 + 2 * x"
  have k1: "0 \<le> ?k1 x" if "0 \<le> x" for x
  proof -
    have "?k1 0 \<le> ?k1 x"
    proof (rule DERIV_nonneg_imp_nondecreasing [OF that])
      fix y :: real
      assume "0 \<le> y"
      then show "\<exists>z. DERIV ?k1 y :> z \<and> 0 \<le> z"
        by (intro exI [of _ "exp y * (y\<^sup>2 + 4 * y)"] conjI)
           (auto intro!: derivative_eq_intros simp: algebra_simps power2_eq_square)
    qed
    then show ?thesis by simp
  qed
  have "?k 0 \<le> ?k d"
  proof (rule DERIV_nonneg_imp_nondecreasing [OF assms])
    fix x :: real
    assume "0 \<le> x"
    then show "\<exists>z. DERIV ?k x :> z \<and> 0 \<le> z"
      using k1 [of x]
      by (intro exI [of _ "?k1 x"] conjI)
         (auto intro!: derivative_eq_intros simp: algebra_simps power2_eq_square)
  qed
  then show ?thesis by (simp add: algebra_simps)
qed

lemma exp_moment_lower_neg:
  fixes d :: real
  assumes "d \<le> 0"
  shows "d\<^sup>2 * exp d \<le> 2 * (exp d - 1 - d)"
proof -
  define u where "u = - d"
  have u: "0 \<le> u" using assms by (simp add: u_def)
  let ?h = "\<lambda>x::real. exp x * (x - 1) - x\<^sup>2 / 2 + 1"
  have "?h 0 \<le> ?h u"
  proof (rule DERIV_nonneg_imp_nondecreasing [OF u])
    fix x :: real
    assume "0 \<le> x"
    show "\<exists>z. DERIV ?h x :> z \<and> 0 \<le> z"
    proof (intro exI conjI)
      show "DERIV ?h x :> x * (exp x - 1)"
        by (auto intro!: derivative_eq_intros simp: algebra_simps power2_eq_square)
      show "0 \<le> x * (exp x - 1)"
        using \<open>0 \<le> x\<close> exp_ge_add_one_self [of x] by (intro mult_nonneg_nonneg) linarith+
    qed
  qed
  then have "u\<^sup>2 \<le> 2 * (1 - exp u + u * exp u)" by (simp add: algebra_simps)
  then have "u\<^sup>2 * exp (- u) \<le> 2 * (1 - exp u + u * exp u) * exp (- u)"
    by (rule mult_right_mono) simp
  also have "\<dots> = 2 * (exp (- u) - 1 + u)"
    by (simp add: algebra_simps exp_minus field_simps)
  finally show ?thesis by (simp add: u_def)
qed

lemma exp_moment_lower_neg_strict:
  fixes d :: real
  assumes "d < 0"
  shows "d\<^sup>2 * exp d < 2 * (exp d - 1 - d)"
proof -
  define u where "u = - d"
  have u: "0 < u" using assms by (simp add: u_def)
  let ?h = "\<lambda>x::real. exp x * (x - 1) - x\<^sup>2 / 2 + 1"
  have "?h 0 < ?h u"
  proof (rule DERIV_pos_imp_increasing_open [OF u])
    fix x :: real
    assume x: "0 < x" "x < u"
    show "\<exists>z. DERIV ?h x :> z \<and> 0 < z"
    proof (intro exI conjI)
      show "DERIV ?h x :> x * (exp x - 1)"
        by (auto intro!: derivative_eq_intros simp: algebra_simps power2_eq_square)
      show "0 < x * (exp x - 1)"
        using x by (intro mult_pos_pos) simp_all
    qed
  next
    show "continuous_on {0..u} ?h"
      by (intro continuous_intros) simp
  qed
  then have "u\<^sup>2 < 2 * (1 - exp u + u * exp u)" by (simp add: algebra_simps)
  then have "u\<^sup>2 * exp (- u) < 2 * (1 - exp u + u * exp u) * exp (- u)"
    by (rule mult_strict_right_mono) simp
  also have "\<dots> = 2 * (exp (- u) - 1 + u)"
    by (simp add: algebra_simps exp_minus field_simps)
  finally show ?thesis by (simp add: u_def)
qed

lemma exp_quadratic_upper_neg:
  fixes d :: real
  assumes "d \<le> 0"
  shows "exp d \<le> 1 + d + d\<^sup>2 / 2"
proof -
  let ?f = "\<lambda>x::real. 1 + x + x\<^sup>2 / 2 - exp x"
  have "?f 0 \<le> ?f d"
  proof (rule DERIV_nonpos_imp_nonincreasing [OF assms])
    fix x :: real
    show "\<exists>y. DERIV ?f x :> y \<and> y \<le> 0"
    proof (intro exI conjI)
      show "DERIV ?f x :> 1 + x - exp x"
        by (auto intro!: derivative_eq_intros)
      show "1 + x - exp x \<le> 0"
        using exp_ge_add_one_self [of x] by linarith
    qed
  qed
  then show ?thesis by simp
qed

text \<open>
  The second-moment factor \<open>2 (e^d - 1 - d) / d^2\<close> of an average of a geometric
  Brownian motion lies between \<open>1\<close> and \<open>e^d\<close>.
\<close>

lemma exp_moment_ratio_bounds:
  fixes d :: real
  assumes "d \<noteq> 0"
  shows "min 1 (exp d) \<le> 2 * (exp d - 1 - d) / d\<^sup>2"
    and "2 * (exp d - 1 - d) / d\<^sup>2 \<le> max 1 (exp d)"
proof -
  have d2: "0 < d\<^sup>2" using assms by simp
  show "min 1 (exp d) \<le> 2 * (exp d - 1 - d) / d\<^sup>2"
  proof (cases "0 < d")
    case True
    then have "1 + d + d\<^sup>2 / 2 \<le> exp d"
      by (intro exp_quadratic_lower) simp
    then have "d\<^sup>2 \<le> 2 * (exp d - 1 - d)"
      by (simp add: field_simps)
    with d2 have "1 \<le> 2 * (exp d - 1 - d) / d\<^sup>2"
      by (simp add: le_divide_eq)
    then show ?thesis by linarith
  next
    case False
    then have "exp d * d\<^sup>2 \<le> 2 * (exp d - 1 - d)"
      using exp_moment_lower_neg [of d] by (simp add: mult.commute)
    with d2 have "exp d \<le> 2 * (exp d - 1 - d) / d\<^sup>2"
      by (simp add: le_divide_eq)
    then show ?thesis by linarith
  qed
  show "2 * (exp d - 1 - d) / d\<^sup>2 \<le> max 1 (exp d)"
  proof (cases "0 < d")
    case True
    then have "2 * (exp d - 1 - d) \<le> exp d * d\<^sup>2"
      using exp_moment_upper [of d] by (simp add: mult.commute)
    with d2 have "2 * (exp d - 1 - d) / d\<^sup>2 \<le> exp d"
      by (simp add: divide_le_eq)
    then show ?thesis by linarith
  next
    case False
    then have "exp d \<le> 1 + d + d\<^sup>2 / 2"
      by (intro exp_quadratic_upper_neg) simp
    then have "2 * (exp d - 1 - d) \<le> 1 * d\<^sup>2"
      by (simp add: field_simps)
    with d2 have "2 * (exp d - 1 - d) / d\<^sup>2 \<le> 1"
      by (simp add: divide_le_eq)
    then show ?thesis by linarith
  qed
qed

lemma exp_moment_ratio_gt_one:
  fixes d :: real
  assumes "0 < d"
  shows "1 < 2 * (exp d - 1 - d) / d\<^sup>2"
proof -
  have "1 + d + d\<^sup>2 / 2 < exp d"
    using assms by (rule exp_quadratic_lower_strict)
  then have "d\<^sup>2 < 2 * (exp d - 1 - d)"
    by (simp add: field_simps)
  moreover have "0 < d\<^sup>2" using assms by simp
  ultimately show ?thesis by (simp add: less_divide_eq)
qed

lemma exp_moment_ratio_gt_exp:
  fixes d :: real
  assumes "d < 0"
  shows "exp d < 2 * (exp d - 1 - d) / d\<^sup>2"
proof -
  have "exp d * d\<^sup>2 < 2 * (exp d - 1 - d)"
    using exp_moment_lower_neg_strict [OF assms] by (simp add: mult.commute)
  moreover have "0 < d\<^sup>2" using assms by simp
  ultimately show ?thesis by (simp add: less_divide_eq)
qed

end
