(* ===== verification/Helpers.thy ===== *)
theory Helpers
  imports Prelude
begin

text \<open>
  \<open>helpers.py\<close>: year fractions from day counts.  Time to maturity does not count
  the expiry day; an averaging period counts both of its end days.
\<close>

definition time_to_maturity :: "date \<Rightarrow> date \<Rightarrow> real" where
  "time_to_maturity pricing_date this_date = real_of_int (this_date - pricing_date) / 365"

definition averaging_period :: "date \<Rightarrow> date \<Rightarrow> real" where
  "averaging_period start_date end_date = real_of_int (end_date - start_date + 1) / 365"

lemma averaging_period_time_to_maturity:
  "averaging_period a b = time_to_maturity a b + 1 / 365"
  by (simp add: averaging_period_def time_to_maturity_def add_divide_distrib del: of_int_diff)

lemma time_to_maturity_pos_iff [simp]: "0 < time_to_maturity a b \<longleftrightarrow> a < b"
  by (simp add: time_to_maturity_def)

lemma time_to_maturity_nonneg_iff [simp]: "0 \<le> time_to_maturity a b \<longleftrightarrow> a \<le> b"
  by (simp add: time_to_maturity_def)

lemma time_to_maturity_nonpos_iff [simp]: "time_to_maturity a b \<le> 0 \<longleftrightarrow> b \<le> a"
  by (simp add: time_to_maturity_def)

lemma time_to_maturity_eq_iff [simp]:
  "time_to_maturity a b = time_to_maturity a c \<longleftrightarrow> b = c"
  by (simp add: time_to_maturity_def)

lemma time_to_maturity_le_iff [simp]:
  "time_to_maturity a b \<le> time_to_maturity a c \<longleftrightarrow> b \<le> c"
  by (simp add: time_to_maturity_def divide_right_mono)

lemma averaging_period_pos_iff [simp]: "0 < averaging_period a b \<longleftrightarrow> a \<le> b"
  by (simp add: averaging_period_def del: of_int_add of_int_diff)

lemma averaging_period_nonneg: "a \<le> b \<Longrightarrow> 0 \<le> averaging_period a b"
  using averaging_period_pos_iff [of a b] by linarith

lemma averaging_period_le_iff [simp]:
  "averaging_period a c \<le> averaging_period b c \<longleftrightarrow> b \<le> a"
  by (simp add: averaging_period_time_to_maturity time_to_maturity_def divide_right_mono)

end
