(* ===== verification/Enums.thy ===== *)
theory Enums
  imports Prelude
begin

text \<open>
  The option type of \<open>enums.py\<close> (not among the sources; modelled from the
  specification): an enumeration \<open>CALL | PUT\<close> whose member value is the sign
  multiplier \<open>+1 / -1\<close> used by the payoff and Greek formulas.  A Python caller
  may pass any object as \<open>option_type\<close>; \<open>OptArg\<close> records whether it is a
  member of the enumeration, which is what the pricer's guard tests.
\<close>

datatype OptionType = CALL | PUT

primrec option_value :: "OptionType \<Rightarrow> real" where
  "option_value CALL = 1"
| "option_value PUT = -1"

datatype OptArg = Known OptionType | Unknown

lemma option_value_cases: "option_value ot = 1 \<or> option_value ot = -1"
  by (cases ot) simp_all

lemma option_value_square [simp]: "option_value ot * option_value ot = 1"
  by (cases ot) simp_all

lemma abs_option_value [simp]: "\<bar>option_value ot\<bar> = 1"
  by (cases ot) simp_all

end
