(* ===== verification/NormalDist.thy ===== *)
theory NormalDist
  imports Prelude
begin

text \<open>
  The pricer evaluates the standard normal distribution through the module-level
  \<open>scipy.stats.norm\<close> object: \<open>norm.cdf\<close> and \<open>norm.pdf\<close>.  SciPy is not part of
  the repository, so the model takes the evaluator as a parameter, a record of the
  two functions, and states as hypotheses exactly the properties of the normal law
  that a theorem uses: the symmetry \<open>\<Phi>(z) + \<Phi>(-z) = 1\<close> (\<open>cdf_symmetric\<close>),
  \<open>0 \<le> \<Phi> \<le> 1\<close> and \<open>\<phi> \<ge> 0\<close> (\<open>norm_bounded\<close>), and for the limits at zero
  volatility continuity at 0 and the limit 1 at \<open>+\<infinity>\<close>.  The logistic
  distribution is a concrete symmetric law that satisfies the hypotheses; it is
  what the witnesses instantiate.
\<close>

record norm_dist =
  norm_cdf :: "real \<Rightarrow> real"
  norm_pdf :: "real \<Rightarrow> real"

definition cdf_symmetric :: "norm_dist \<Rightarrow> bool" where
  "cdf_symmetric N \<longleftrightarrow> (\<forall>z. norm_cdf N z + norm_cdf N (- z) = 1)"

definition logistic_dist :: norm_dist where
  "logistic_dist =
     \<lparr>norm_cdf = (\<lambda>z. 1 / (1 + exp (- z))),
      norm_pdf = (\<lambda>z. exp (- z) / (1 + exp (- z))\<^sup>2)\<rparr>"

definition pdf_tails :: "norm_dist \<Rightarrow> bool" where
  "pdf_tails N \<longleftrightarrow>
     ((\<lambda>z. z * norm_pdf N z) \<longlongrightarrow> 0) at_top \<and> ((\<lambda>z. z * norm_pdf N z) \<longlongrightarrow> 0) at_bot"

definition norm_bounded :: "norm_dist \<Rightarrow> bool" where
  "norm_bounded N \<longleftrightarrow> (\<forall>z. 0 \<le> norm_cdf N z \<and> norm_cdf N z \<le> 1 \<and> 0 \<le> norm_pdf N z)"

lemma cdf_symmetric_neg:
  assumes "cdf_symmetric N"
  shows "norm_cdf N (- z) = 1 - norm_cdf N z"
proof -
  have "norm_cdf N z + norm_cdf N (- z) = 1"
    using assms by (simp add: cdf_symmetric_def)
  then show ?thesis by linarith
qed

lemma cdf_symmetric_zero:
  "cdf_symmetric N \<Longrightarrow> norm_cdf N 0 = 1 / 2"
  using cdf_symmetric_neg [of N 0] by simp

lemma logistic_symmetric: "cdf_symmetric logistic_dist"
proof -
  have "1 / (1 + exp (- z)) + 1 / (1 + exp z) = 1" for z :: real
  proof -
    have "1 / (1 + exp (- z)) = exp z / (exp z + 1)"
      by (simp add: exp_minus field_simps)
    moreover have "0 < 1 + exp z"
      by (simp add: add_pos_pos)
    ultimately show ?thesis
      by (simp add: field_simps)
  qed
  then show ?thesis
    by (simp add: cdf_symmetric_def logistic_dist_def)
qed

lemma logistic_tendsto_top: "(norm_cdf logistic_dist \<longlongrightarrow> 1) at_top"
proof -
  have "((\<lambda>z::real. exp (- z)) \<longlongrightarrow> 0) at_top"
    by (rule filterlim_compose [OF exp_at_bot filterlim_uminus_at_bot_at_top])
  then have "((\<lambda>z::real. 1 / (1 + exp (- z))) \<longlongrightarrow> 1 / (1 + 0)) at_top"
    by (intro tendsto_intros) simp_all
  then show ?thesis by (simp add: logistic_dist_def)
qed

lemma logistic_isCont: "isCont (norm_cdf logistic_dist) z"
proof -
  have "0 < 1 + exp (- z)" by (simp add: add_pos_pos)
  then have "isCont (\<lambda>z::real. 1 / (1 + exp (- z))) z"
    by (intro continuous_intros) simp
  then show ?thesis by (simp add: logistic_dist_def)
qed

lemma norm_bounded_cdf:
  assumes "norm_bounded N"
  shows "0 \<le> norm_cdf N z" "norm_cdf N z \<le> 1"
  using assms by (simp_all add: norm_bounded_def)

lemma norm_bounded_pdf:
  "norm_bounded N \<Longrightarrow> 0 \<le> norm_pdf N z"
  by (simp add: norm_bounded_def)

lemma logistic_bounded: "norm_bounded logistic_dist"
proof -
  have "1 / (1 + exp (- z)) \<le> 1" for z :: real
    by (simp add: add_pos_pos)
  then show ?thesis
    by (simp add: norm_bounded_def logistic_dist_def add_pos_pos less_imp_le)
qed

lemma pdf_tails_pdf:
  assumes "pdf_tails N"
  shows "(norm_pdf N \<longlongrightarrow> 0) at_top" "(norm_pdf N \<longlongrightarrow> 0) at_bot"
proof -
  have top: "((\<lambda>z. z * norm_pdf N z) \<longlongrightarrow> 0) at_top"
    and bot: "((\<lambda>z. z * norm_pdf N z) \<longlongrightarrow> 0) at_bot"
    using assms by (simp_all add: pdf_tails_def)
  have "\<forall>\<^sub>F z in at_top. norm (norm_pdf N z) \<le> norm (z * norm_pdf N z) * 1"
    using eventually_ge_at_top [of "1::real"]
  proof eventually_elim
    case (elim z)
    then show ?case
      using mult_right_mono [of 1 "\<bar>z\<bar>" "\<bar>norm_pdf N z\<bar>"] by (simp add: abs_mult)
  qed
  with top show "(norm_pdf N \<longlongrightarrow> 0) at_top"
    by (rule tendsto_0_le)
  have "\<forall>\<^sub>F z in at_bot. norm (norm_pdf N z) \<le> norm (z * norm_pdf N z) * 1"
    using eventually_le_at_bot [of "- 1::real"]
  proof eventually_elim
    case (elim z)
    then show ?case
      using mult_right_mono [of 1 "\<bar>z\<bar>" "\<bar>norm_pdf N z\<bar>"] by (simp add: abs_mult)
  qed
  with bot show "(norm_pdf N \<longlongrightarrow> 0) at_bot"
    by (rule tendsto_0_le)
qed

lemma logistic_pdf_le: "norm_pdf logistic_dist z \<le> exp (- \<bar>z\<bar>)"
proof (cases "0 \<le> z")
  case True
  have "1 \<le> 1 + exp (- z)" by simp
  then have "1 \<le> (1 + exp (- z))\<^sup>2"
    using mult_mono [of 1 "1 + exp (- z)" 1 "1 + exp (- z)"] by (simp add: power2_eq_square)
  then have "exp (- z) / (1 + exp (- z))\<^sup>2 \<le> exp (- z)"
    by (simp add: divide_le_eq)
  with True show ?thesis by (simp add: logistic_dist_def)
next
  case False
  have eq: "exp (- z) / (1 + exp (- z))\<^sup>2 = exp z / (exp z + 1)\<^sup>2"
    by (simp add: power2_eq_square field_simps exp_minus)
  have "1 \<le> exp z + 1" by simp
  then have "1 \<le> (exp z + 1)\<^sup>2"
    using mult_mono [of 1 "exp z + 1" 1 "exp z + 1"] by (simp add: power2_eq_square)
  then have "exp z / (exp z + 1)\<^sup>2 \<le> exp z"
    by (simp add: divide_le_eq)
  with False eq show ?thesis by (simp add: logistic_dist_def)
qed

lemma logistic_pdf_tails: "pdf_tails logistic_dist"
proof -
  let ?p = "norm_pdf logistic_dist"
  have p0: "0 \<le> ?p z" for z
    by (rule norm_bounded_pdf [OF logistic_bounded])
  have "((\<lambda>z::real. z ^ 1 / exp z) \<longlongrightarrow> 0) at_top"
    by (rule tendsto_power_div_exp_0)
  moreover have "\<forall>\<^sub>F z in at_top. norm (z * ?p z) \<le> norm (z ^ 1 / exp z) * 1"
    using eventually_ge_at_top [of "0::real"]
  proof eventually_elim
    case (elim z)
    then have "z * ?p z \<le> z * exp (- z)"
      using logistic_pdf_le [of z] by (simp add: mult_left_mono)
    with elim p0 [of z] show ?case by (simp add: exp_minus divide_inverse)
  qed
  ultimately have top: "((\<lambda>z. z * ?p z) \<longlongrightarrow> 0) at_top"
    by (rule tendsto_0_le)
  have "((\<lambda>z::real. (- z) ^ 1 / exp (- z)) \<longlongrightarrow> 0) at_bot"
    by (rule filterlim_compose [OF tendsto_power_div_exp_0 filterlim_uminus_at_top_at_bot])
  moreover have "\<forall>\<^sub>F z in at_bot. norm (z * ?p z) \<le> norm ((- z) ^ 1 / exp (- z)) * 1"
    using eventually_le_at_bot [of "0::real"]
  proof eventually_elim
    case (elim z)
    then have "(- z) * ?p z \<le> (- z) * exp z"
      using logistic_pdf_le [of z] by (intro mult_left_mono) simp_all
    with elim p0 [of z] show ?case
      by (simp add: exp_minus divide_inverse abs_mult)
  qed
  ultimately have bot: "((\<lambda>z. z * ?p z) \<longlongrightarrow> 0) at_bot"
    by (rule tendsto_0_le)
  from top bot show ?thesis by (simp add: pdf_tails_def)
qed

end
