(* ===== verification/BlackScholes.thy ===== *)
theory BlackScholes
  imports Enums NormalDist
begin

text \<open>
  \<open>black_scholes.py\<close>: the generalised Black-Scholes-Merton pricer with cost of
  carry \<open>b\<close>.  \<open>calculate_black_scholes\<close> first rejects an argument that is not an
  \<open>OptionType\<close>, then takes the degenerate branch (\<open>t \<le> 0\<close> or \<open>v = 0\<close>:
  discounted intrinsic value and its one-sided Greeks) or the general branch
  (\<open>d1\<close>, \<open>d2\<close> and the closed forms).  In the general branch \<open>s / x\<close> raises
  \<open>ZeroDivisionError\<close> for \<open>x = 0\<close> and \<open>math.log\<close> raises \<open>ValueError\<close> for a
  non-positive quotient; the later divisions (by \<open>v * sqrt t\<close>, \<open>2 * sqrt t\<close> and
  \<open>s * v * sqrt t\<close>) are shown never to divide by zero
  (\<open>bs_general_divisors_nonzero\<close>), so they are written with \<open>/\<close>.
\<close>

record BSResult =
  bs_value :: real
  delta :: real
  gamma :: real
  theta :: real
  vega :: real
  rho :: real

definition bs_degenerate ::
  "OptionType \<Rightarrow> real \<Rightarrow> real \<Rightarrow> real \<Rightarrow> real \<Rightarrow> real \<Rightarrow> BSResult" where
  "bs_degenerate option_type s x t r b =
     (let cp = option_value option_type;
          val = max 0 (cp * (s * exp ((- r + b) * t) - x * exp (- r * t)))
      in \<lparr>bs_value = val,
          delta = (if val > 0 then cp * exp ((b - r) * t) else 0),
          gamma = 0,
          theta = (if val > 0
                   then - cp * ((b - r) * s * exp ((b - r) * t) - (- r) * x * exp (- r * t))
                   else 0),
          vega = 0,
          rho = (if val > 0 then cp * x * t * exp (- r * t) else 0)\<rparr>)"

definition bs_d1 :: "real \<Rightarrow> real \<Rightarrow> real \<Rightarrow> real \<Rightarrow> real \<Rightarrow> py_error + real" where
  "bs_d1 s x t b v =
     sum_bind (py_div s x) (\<lambda>q. sum_bind (py_log q) (\<lambda>l.
       Inr ((l + (b + (v * v) / 2) * t) / (v * sqrt t))))"

definition bs_closed_form ::
  "norm_dist \<Rightarrow> OptionType \<Rightarrow> real \<Rightarrow> real \<Rightarrow> real \<Rightarrow> real \<Rightarrow> real \<Rightarrow> real \<Rightarrow> real
   \<Rightarrow> BSResult" where
  "bs_closed_form N option_type s x t r b v d1 =
     (let t__sqrt = sqrt t; d2 = d1 - v * t__sqrt; cdf = norm_cdf N; pdf = norm_pdf N
      in case option_type of
        CALL \<Rightarrow>
          \<lparr>bs_value = s * exp ((b - r) * t) * cdf d1 - x * exp (- r * t) * cdf d2,
           delta = exp ((b - r) * t) * cdf d1,
           gamma = exp ((b - r) * t) * pdf d1 / (s * v * t__sqrt),
           theta = - (s * v * exp ((b - r) * t) * pdf d1) / (2 * t__sqrt)
                   - (b - r) * s * exp ((b - r) * t) * cdf d1
                   - r * x * exp (- r * t) * cdf d2,
           vega = exp ((b - r) * t) * s * t__sqrt * pdf d1,
           rho = x * t * exp (- r * t) * cdf d2\<rparr>
      | PUT \<Rightarrow>
          \<lparr>bs_value = x * exp (- r * t) * cdf (- d2) - s * exp ((b - r) * t) * cdf (- d1),
           delta = - exp ((b - r) * t) * cdf (- d1),
           gamma = exp ((b - r) * t) * pdf d1 / (s * v * t__sqrt),
           theta = - (s * v * exp ((b - r) * t) * pdf d1) / (2 * t__sqrt)
                   + (b - r) * s * exp ((b - r) * t) * cdf (- d1)
                   + r * x * exp (- r * t) * cdf (- d2),
           vega = exp ((b - r) * t) * s * t__sqrt * pdf d1,
           rho = - x * t * exp (- r * t) * cdf (- d2)\<rparr>)"

definition bs_general ::
  "norm_dist \<Rightarrow> OptionType \<Rightarrow> real \<Rightarrow> real \<Rightarrow> real \<Rightarrow> real \<Rightarrow> real \<Rightarrow> real
   \<Rightarrow> py_error + BSResult" where
  "bs_general N option_type s x t r b v =
     sum_bind (bs_d1 s x t b v) (\<lambda>d1. Inr (bs_closed_form N option_type s x t r b v d1))"

definition calculate_black_scholes ::
  "norm_dist \<Rightarrow> OptArg \<Rightarrow> real \<Rightarrow> real \<Rightarrow> real \<Rightarrow> real \<Rightarrow> real \<Rightarrow> real
   \<Rightarrow> py_error + BSResult" where
  "calculate_black_scholes N option_type s x t r b v =
     (case option_type of
        Unknown \<Rightarrow> Inl InvalidOptionType
      | Known ot \<Rightarrow>
          if t \<le> 0 \<or> v = 0 then Inr (bs_degenerate ot s x t r b)
          else bs_general N ot s x t r b v)"

subsection \<open>Characteristic equations of the branches\<close>

lemma bs_d1_eq:
  "bs_d1 s x t b v =
     (if x = 0 then Inl ZeroDivisionError
      else if s / x \<le> 0 then Inl MathDomainError
      else Inr ((ln (s / x) + (b + (v * v) / 2) * t) / (v * sqrt t)))"
  by (simp add: bs_d1_def py_div_def py_log_def)

lemma calculate_black_scholes_Unknown [simp]:
  "calculate_black_scholes N Unknown s x t r b v = Inl InvalidOptionType"
  by (simp add: calculate_black_scholes_def)

lemma calculate_black_scholes_degenerate:
  "t \<le> 0 \<or> v = 0 \<Longrightarrow>
   calculate_black_scholes N (Known ot) s x t r b v = Inr (bs_degenerate ot s x t r b)"
  by (simp add: calculate_black_scholes_def)

lemma calculate_black_scholes_general:
  "0 < t \<Longrightarrow> v \<noteq> 0 \<Longrightarrow>
   calculate_black_scholes N (Known ot) s x t r b v = bs_general N ot s x t r b v"
  by (simp add: calculate_black_scholes_def)

lemma bs_general_zero_strike:
  "bs_general N ot s 0 t r b v = Inl ZeroDivisionError"
  by (simp add: bs_general_def bs_d1_eq)

lemma bs_general_domain:
  "x \<noteq> 0 \<Longrightarrow> s / x \<le> 0 \<Longrightarrow> bs_general N ot s x t r b v = Inl MathDomainError"
  by (simp add: bs_general_def bs_d1_eq)

lemma bs_general_ok:
  "x \<noteq> 0 \<Longrightarrow> 0 < s / x \<Longrightarrow>
   bs_general N ot s x t r b v =
     Inr (bs_closed_form N ot s x t r b v ((ln (s / x) + (b + (v * v) / 2) * t) / (v * sqrt t)))"
  by (simp add: bs_general_def bs_d1_eq)

lemma bs_error_cases_general:
  assumes "0 < t" "v \<noteq> 0" "calculate_black_scholes N (Known ot) s x t r b v = Inr res"
  shows "x \<noteq> 0 \<and> 0 < s / x"
  using assms
  by (cases "x = 0"; cases "s / x \<le> 0")
     (simp_all add: calculate_black_scholes_general bs_general_zero_strike bs_general_domain)

lemma bs_degenerate_value:
  "bs_value (bs_degenerate ot s x t r b) =
     max 0 (option_value ot * (s * exp ((b - r) * t) - x * exp (- r * t)))"
  by (simp add: bs_degenerate_def Let_def add.commute)

lemma bs_degenerate_flat [simp]:
  "gamma (bs_degenerate ot s x t r b) = 0" "vega (bs_degenerate ot s x t r b) = 0"
  by (simp_all add: bs_degenerate_def Let_def)

lemma bs_closed_form_value_parity:
  assumes "cdf_symmetric N"
  shows "bs_value (bs_closed_form N CALL s x t r b v d1) =
         bs_value (bs_closed_form N PUT s x t r b v d1) + (s * exp ((b - r) * t) - x * exp (- r * t))"
  using assms by (simp add: bs_closed_form_def Let_def cdf_symmetric_neg algebra_simps)

lemma bs_value_parity:
  assumes "cdf_symmetric N"
  shows "map_sum id bs_value (calculate_black_scholes N (Known CALL) s x t r b v) =
         map_sum id (\<lambda>p. bs_value p + (s * exp ((b - r) * t) - x * exp (- r * t)))
           (calculate_black_scholes N (Known PUT) s x t r b v)"
proof (cases "t \<le> 0 \<or> v = 0")
  case True
  then show ?thesis
    using max_zero_parity [of "s * exp ((b - r) * t) - x * exp (- r * t)"]
    by (simp add: calculate_black_scholes_degenerate bs_degenerate_value)
next
  case False
  then have "0 < t" "v \<noteq> 0" by auto
  then show ?thesis
    using assms bs_closed_form_value_parity
    by (cases "x = 0"; cases "s / x \<le> 0")
       (simp_all add: calculate_black_scholes_general bs_general_zero_strike
          bs_general_domain bs_general_ok)
qed

lemma bs_scaled_parity:
  assumes "cdf_symmetric N"
  shows "map_sum id (\<lambda>res. bs_value res * mu) (calculate_black_scholes N (Known CALL) s x t r b v) =
         map_sum id (\<lambda>res. bs_value res * mu + mu * (s * exp ((b - r) * t) - x * exp (- r * t)))
           (calculate_black_scholes N (Known PUT) s x t r b v)"
  using bs_value_parity [OF assms, of s x t r b v]
  by (cases "calculate_black_scholes N (Known CALL) s x t r b v";
      cases "calculate_black_scholes N (Known PUT) s x t r b v")
     (simp_all add: algebra_simps, metis distrib_left)

lemma bs_Inr_pos:
  assumes "0 < s" "0 < x"
  shows "\<exists>res. calculate_black_scholes N (Known ot) s x t r b v = Inr res"
  using assms
  by (cases "t \<le> 0 \<or> v = 0")
     (auto simp: calculate_black_scholes_degenerate calculate_black_scholes_general bs_general_ok)

text \<open>C1: put-call parity of the vanilla pricer: for an evaluator with a symmetric
  CDF the call is worth the put plus the discounted forward \<open>s e^((b-r)t) - x e^(-rt)\<close>,
  on every input, and the call raises exactly when the put raises.\<close>

theorem put_call_parity:
  assumes "cdf_symmetric N"
  shows "map_sum id bs_value (calculate_black_scholes N (Known CALL) s x t r b v) =
         map_sum id (\<lambda>p. bs_value p + (s * exp ((b - r) * t) - x * exp (- r * t)))
           (calculate_black_scholes N (Known PUT) s x t r b v)"
  using assms by (rule bs_value_parity)

theorem put_call_parity_witness:
  "cdf_symmetric logistic_dist \<and>
   map_sum id bs_value (calculate_black_scholes logistic_dist (Known CALL) 100 120 (7/10) (2/100) (1/100) (2/10)) =
   map_sum id (\<lambda>p. bs_value p + (100 * exp ((1/100 - 2/100) * (7/10)) - 120 * exp (- (2/100) * (7/10))))
     (calculate_black_scholes logistic_dist (Known PUT) 100 120 (7/10) (2/100) (1/100) (2/10))"
  by (intro conjI logistic_symmetric put_call_parity)

text \<open>C8: the errors of the vanilla pricer for a valid option type: it raises only in
  the general branch, \<open>ZeroDivisionError\<close> exactly for a zero strike and
  \<open>ValueError\<close> (math domain) exactly when \<open>s / x\<close> is not positive.\<close>

theorem bs_error_iff:
  "calculate_black_scholes N (Known ot) s x t r b v = Inl e \<longleftrightarrow>
     0 < t \<and> v \<noteq> 0 \<and>
     (x = 0 \<and> e = ZeroDivisionError \<or> x \<noteq> 0 \<and> s / x \<le> 0 \<and> e = MathDomainError)"
proof (cases "t \<le> 0 \<or> v = 0")
  case True
  then show ?thesis by (auto simp: calculate_black_scholes_degenerate)
next
  case False
  then have "0 < t" "v \<noteq> 0" by auto
  then show ?thesis
    by (cases "x = 0"; cases "s / x \<le> 0")
       (auto simp: calculate_black_scholes_general bs_general_zero_strike bs_general_domain
          bs_general_ok)
qed

theorem bs_error_iff_witness:
  "calculate_black_scholes logistic_dist (Known CALL) 100 0 1 0 0 (1/5) = Inl ZeroDivisionError"
  using bs_error_iff [of logistic_dist CALL 100 0 1 0 0 "1/5" ZeroDivisionError] by simp

text \<open>C9: at expiry (\<open>t = 0\<close>) the pricer never raises and returns the intrinsic
  value \<open>max 0 (cp (s - x))\<close> with zero gamma, vega and rho.\<close>

theorem bs_zero_time:
  "\<exists>res. calculate_black_scholes N (Known ot) s x 0 r b v = Inr res \<and>
     bs_value res = max 0 (option_value ot * (s - x)) \<and>
     gamma res = 0 \<and> vega res = 0 \<and> rho res = 0"
  by (simp add: calculate_black_scholes_degenerate bs_degenerate_def Let_def)

text \<open>C10: gamma and vega do not depend on the option type, in both branches, and
  the call raises exactly when the put raises.\<close>

theorem bs_gamma_vega_type_independent:
  "map_sum id gamma (calculate_black_scholes N (Known CALL) s x t r b v) =
     map_sum id gamma (calculate_black_scholes N (Known PUT) s x t r b v) \<and>
   map_sum id vega (calculate_black_scholes N (Known CALL) s x t r b v) =
     map_sum id vega (calculate_black_scholes N (Known PUT) s x t r b v)"
proof (cases "t \<le> 0 \<or> v = 0")
  case True
  then show ?thesis by (simp add: calculate_black_scholes_degenerate)
next
  case False
  then have "0 < t" "v \<noteq> 0" by auto
  then show ?thesis
    by (cases "x = 0"; cases "s / x \<le> 0")
       (simp_all add: calculate_black_scholes_general bs_general_zero_strike bs_general_domain
          bs_general_ok bs_closed_form_def Let_def)
qed

text \<open>C11: in the general branch the Greeks obey put-call parity: delta, theta and rho
  of the call exceed those of the put by the corresponding sensitivities of the
  discounted forward \<open>s e^((b-r)t) - x e^(-rt)\<close>.\<close>

theorem bs_greek_parity:
  assumes "cdf_symmetric N" "0 < t" "v \<noteq> 0"
    and "calculate_black_scholes N (Known CALL) s x t r b v = Inr c"
    and "calculate_black_scholes N (Known PUT) s x t r b v = Inr p"
  shows "delta c - delta p = exp ((b - r) * t) \<and>
         theta c - theta p = - ((b - r) * s * exp ((b - r) * t) + r * x * exp (- r * t)) \<and>
         rho c - rho p = x * t * exp (- r * t)"
proof -
  have ok: "x \<noteq> 0" "0 < s / x"
    using assms(2-4) by (auto simp: bs_error_cases_general)
  define d1 where "d1 = (ln (s / x) + (b + (v * v) / 2) * t) / (v * sqrt t)"
  have c: "c = bs_closed_form N CALL s x t r b v d1"
    using assms(2-4) ok by (simp add: calculate_black_scholes_general bs_general_ok d1_def)
  have p: "p = bs_closed_form N PUT s x t r b v d1"
    using assms(2,3,5) ok by (simp add: calculate_black_scholes_general bs_general_ok d1_def)
  show ?thesis
    using assms(1) unfolding c p
    by (simp add: bs_closed_form_def Let_def cdf_symmetric_neg algebra_simps)
qed

theorem bs_greek_parity_witness:
  "\<exists>c p. cdf_symmetric logistic_dist \<and> (0::real) < 1 \<and> (1::real) \<noteq> 0 \<and>
     calculate_black_scholes logistic_dist (Known CALL) 100 120 1 0 0 1 = Inr c \<and>
     calculate_black_scholes logistic_dist (Known PUT) 100 120 1 0 0 1 = Inr p \<and>
     delta c - delta p = exp ((0 - 0) * 1) \<and>
     theta c - theta p = - ((0 - 0) * 100 * exp ((0 - 0) * 1) + 0 * 120 * exp (- 0 * 1)) \<and>
     rho c - rho p = 120 * 1 * exp (- 0 * (1::real))"
proof -
  obtain c where c: "calculate_black_scholes logistic_dist (Known CALL) 100 120 1 0 0 1 = Inr c"
    using bs_Inr_pos [of 100 120 logistic_dist CALL 1 0 0 1] by auto
  obtain p where p: "calculate_black_scholes logistic_dist (Known PUT) 100 120 1 0 0 1 = Inr p"
    using bs_Inr_pos [of 100 120 logistic_dist PUT 1 0 0 1] by auto
  have "delta c - delta p = exp ((0 - 0) * 1) \<and>
        theta c - theta p = - ((0 - 0) * 100 * exp ((0 - 0) * 1) + 0 * 120 * exp (- 0 * 1)) \<and>
        rho c - rho p = 120 * 1 * exp (- 0 * (1::real))"
    using bs_greek_parity [OF logistic_symmetric _ _ c p] by simp
  with c p logistic_symmetric show ?thesis
    by (intro exI [of _ c] exI [of _ p]) simp
qed

text \<open>C12: in the degenerate branch at the money forward
  (\<open>s e^((b-r)t) = x e^(-rt)\<close>) both options are worth 0 and all their Greeks are
  0, so the Greek parity of C11 fails there: call delta minus put delta is 0, not
  \<open>e^((b-r)t)\<close>.\<close>

theorem bs_degenerate_atm_greeks:
  assumes "t \<le> 0 \<or> v = 0" "s * exp ((b - r) * t) = x * exp (- r * t)"
  shows "\<exists>c p. calculate_black_scholes N (Known CALL) s x t r b v = Inr c \<and>
           calculate_black_scholes N (Known PUT) s x t r b v = Inr p \<and>
           bs_value c = 0 \<and> bs_value p = 0 \<and>
           delta c = 0 \<and> delta p = 0 \<and> theta c = 0 \<and> theta p = 0 \<and>
           rho c = 0 \<and> rho p = 0"
proof -
  have "s * exp ((- r + b) * t) = x * exp (- r * t)"
    using assms(2) by (simp add: add.commute)
  then show ?thesis
    using assms(1) by (simp add: calculate_black_scholes_degenerate bs_degenerate_def Let_def)
qed

theorem bs_degenerate_atm_greeks_witness:
  "((1::real) \<le> 0 \<or> (0::real) = 0) \<and> 100 * exp ((0 - 0) * 1) = (100::real) * exp (- 0 * 1) \<and>
   (\<exists>c p. calculate_black_scholes logistic_dist (Known CALL) 100 100 1 0 0 0 = Inr c \<and>
      calculate_black_scholes logistic_dist (Known PUT) 100 100 1 0 0 0 = Inr p \<and>
      bs_value c = 0 \<and> bs_value p = 0 \<and>
      delta c = 0 \<and> delta p = 0 \<and> theta c = 0 \<and> theta p = 0 \<and>
      rho c = 0 \<and> rho p = 0)"
  using bs_degenerate_atm_greeks [of 1 0 100 0 0 100 logistic_dist] by simp

lemma vega_gamma_closed_form:
  fixes e p s v t :: real
  assumes "s \<noteq> 0" "v \<noteq> 0" "0 < t"
  shows "e * s * sqrt t * p = s\<^sup>2 * v * t * (e * p / (s * v * sqrt t))"
proof -
  define k where "k = sqrt t"
  have k: "k \<noteq> 0" "t = k * k" using assms(3) by (simp_all add: k_def)
  have "e * s * k * p = s\<^sup>2 * v * (k * k) * (e * p / (s * v * k))"
    using assms(1,2) k(1) by (simp add: field_simps power2_eq_square)
  then show ?thesis
    unfolding k_def [symmetric] by (subst k(2))
qed

text \<open>C13: every result of the pricer satisfies the Black-Scholes identity
  \<open>vega = s^2 v t gamma\<close>: in the general branch it ties the divisor \<open>s v sqrt t\<close> of
  gamma to the factor \<open>s sqrt t\<close> of vega, for calls and puts; in the degenerate
  branch both are 0.\<close>

theorem bs_vega_gamma_relation:
  assumes "calculate_black_scholes N (Known ot) s x t r b v = Inr res"
  shows "vega res = s\<^sup>2 * v * t * gamma res"
proof (cases "t \<le> 0 \<or> v = 0")
  case True
  then have "res = bs_degenerate ot s x t r b"
    using assms by (simp add: calculate_black_scholes_degenerate)
  then show ?thesis by simp
next
  case False
  then have tv: "0 < t" "v \<noteq> 0" by auto
  then have ok: "x \<noteq> 0" "0 < s / x"
    using assms by (auto simp: bs_error_cases_general)
  then have s: "s \<noteq> 0" by auto
  define d1 where "d1 = (ln (s / x) + (b + (v * v) / 2) * t) / (v * sqrt t)"
  have "res = bs_closed_form N ot s x t r b v d1"
    using assms tv ok by (simp add: calculate_black_scholes_general bs_general_ok d1_def)
  then show ?thesis
    using vega_gamma_closed_form [OF s tv(2,1)]
    by (cases ot) (simp_all add: bs_closed_form_def Let_def)
qed

theorem bs_vega_gamma_relation_witness:
  "\<exists>res. calculate_black_scholes logistic_dist (Known PUT) 100 120 1 0 0 (1 / 5) = Inr res \<and>
     vega res = 100\<^sup>2 * (1 / 5) * 1 * gamma res"
proof -
  obtain res where r: "calculate_black_scholes logistic_dist (Known PUT) 100 120 1 0 0 (1 / 5) = Inr res"
    using bs_Inr_pos [of 100 120 logistic_dist PUT 1 0 0 "1 / 5"] by auto
  with bs_vega_gamma_relation [OF r] show ?thesis by blast
qed

subsection \<open>Signs and bounds of the results\<close>

lemma bs_closed_form_signs:
  fixes ot :: OptionType and d b r :: real
  assumes "norm_bounded N" "0 < s" "0 < x" "0 \<le> t" "0 \<le> v"
  defines "res \<equiv> bs_closed_form N ot s x t r b v d"
  shows "0 \<le> option_value ot * delta res \<and> option_value ot * delta res \<le> exp ((b - r) * t) \<and>
         0 \<le> gamma res \<and> 0 \<le> vega res \<and> 0 \<le> option_value ot * rho res \<and>
         bs_value res \<le> (if ot = CALL then s * exp ((b - r) * t) else x * exp (- r * t))"
proof -
  let ?e = "exp ((b - r) * t)" and ?f = "exp (- r * t)"
  have c0: "0 \<le> norm_cdf N z" and c1: "norm_cdf N z \<le> 1" and p0: "0 \<le> norm_pdf N z" for z
    using assms(1) by (simp_all add: norm_bounded_cdf norm_bounded_pdf)
  have pos: "0 \<le> s" "0 \<le> x" "0 \<le> ?e" "0 \<le> ?f" "0 \<le> sqrt t"
    using assms(2-4) by simp_all
  have cdf_mul: "0 \<le> a * norm_cdf N z" "a * norm_cdf N z \<le> a" if "0 \<le> a" for a z
    using that c0 [of z] c1 [of z] by (simp_all add: mult_left_le)
  have gamma: "0 \<le> gamma res" and vega: "0 \<le> vega res"
    using pos assms(5) p0 [of d]
    by (cases ot; simp add: res_def bs_closed_form_def Let_def)+
  show ?thesis
  proof (cases ot)
    case CALL
    have "0 \<le> x * t * ?f * norm_cdf N (d - v * sqrt t)"
      using pos assms(4) by (intro cdf_mul) simp
    moreover have "s * ?e * norm_cdf N d \<le> s * ?e"
      using pos by (intro cdf_mul) simp
    moreover have "0 \<le> x * ?f * norm_cdf N (d - v * sqrt t)"
      using pos by (intro cdf_mul) simp
    ultimately show ?thesis
      using CALL gamma vega cdf_mul [OF pos(3), of d]
      by (simp add: res_def bs_closed_form_def Let_def)
  next
    case PUT
    have "0 \<le> x * t * ?f * norm_cdf N (- (d - v * sqrt t))"
      using pos assms(4) by (intro cdf_mul) simp
    moreover have "x * ?f * norm_cdf N (- (d - v * sqrt t)) \<le> x * ?f"
      using pos by (intro cdf_mul) simp
    moreover have "0 \<le> s * ?e * norm_cdf N (- d)"
      using pos by (intro cdf_mul) simp
    ultimately show ?thesis
      using PUT gamma vega cdf_mul [OF pos(3), of "- d"]
      by (simp add: res_def bs_closed_form_def Let_def)
  qed
qed

lemma bs_degenerate_signs:
  fixes ot :: OptionType and b r :: real
  assumes "0 < s" "0 < x" "0 \<le> t"
  defines "res \<equiv> bs_degenerate ot s x t r b"
  shows "0 \<le> option_value ot * delta res \<and> option_value ot * delta res \<le> exp ((b - r) * t) \<and>
         0 \<le> gamma res \<and> 0 \<le> vega res \<and> 0 \<le> option_value ot * rho res \<and>
         bs_value res \<le> (if ot = CALL then s * exp ((b - r) * t) else x * exp (- r * t))"
proof -
  have "0 < s * exp ((b - r) * t)" "0 < x * exp (- r * t)"
    using assms(1,2) by simp_all
  moreover have "0 \<le> x * t * exp (- r * t)"
    using assms(2,3) by simp
  ultimately show ?thesis
    by (cases ot) (simp_all add: res_def bs_degenerate_def Let_def add.commute)
qed

text \<open>C24: for positive spot and strike, non-negative time and volatility and an
  evaluator with \<open>0 \<le> \<Phi> \<le> 1\<close> and \<open>\<phi> \<ge> 0\<close>, every result of the pricer has
  the signs of the classical Greeks, in both branches: the delta has the sign of the
  option type and magnitude at most \<open>e^((b-r)t)\<close>, gamma and vega are non-negative,
  the rho has the sign of the option type, and the value is at most the discounted
  forward (call) or the discounted strike (put).\<close>

theorem bs_result_bounds:
  assumes "norm_bounded N" "0 < s" "0 < x" "0 \<le> t" "0 \<le> v"
    and "calculate_black_scholes N (Known ot) s x t r b v = Inr res"
  shows "0 \<le> option_value ot * delta res \<and> option_value ot * delta res \<le> exp ((b - r) * t) \<and>
         0 \<le> gamma res \<and> 0 \<le> vega res \<and> 0 \<le> option_value ot * rho res \<and>
         bs_value res \<le> (if ot = CALL then s * exp ((b - r) * t) else x * exp (- r * t))"
proof (cases "t \<le> 0 \<or> v = 0")
  case True
  then have "res = bs_degenerate ot s x t r b"
    using assms(6) by (simp add: calculate_black_scholes_degenerate)
  then show ?thesis
    using bs_degenerate_signs [OF assms(2-4), where ot = ot and b = b and r = r] by simp
next
  case False
  then have "0 < t" "v \<noteq> 0" by auto
  moreover have "0 < s / x" using assms(2,3) by simp
  ultimately have "res = bs_closed_form N ot s x t r b v
                           ((ln (s / x) + (b + (v * v) / 2) * t) / (v * sqrt t))"
    using assms(3,6) by (simp add: calculate_black_scholes_general bs_general_ok)
  then show ?thesis
    using bs_closed_form_signs [OF assms(1-5)] by simp
qed

theorem bs_result_bounds_witness:
  "\<exists>res. norm_bounded logistic_dist \<and> (0::real) < 100 \<and> (0::real) < 120 \<and>
     (0::real) \<le> 1 \<and> (0::real) \<le> 1 / 5 \<and>
     calculate_black_scholes logistic_dist (Known PUT) 100 120 1 0 0 (1 / 5) = Inr res \<and>
     0 \<le> option_value PUT * delta res \<and> option_value PUT * delta res \<le> exp ((0 - 0) * 1) \<and>
     0 \<le> gamma res \<and> 0 \<le> vega res \<and> 0 \<le> option_value PUT * rho res \<and>
     bs_value res \<le> (if PUT = CALL then 100 * exp ((0 - 0) * 1) else 120 * exp (- 0 * (1::real)))"
proof -
  obtain res where r: "calculate_black_scholes logistic_dist (Known PUT) 100 120 1 0 0 (1 / 5) = Inr res"
    using bs_Inr_pos [of 100 120 logistic_dist PUT 1 0 0 "1 / 5"] by auto
  have "0 \<le> option_value PUT * delta res \<and> option_value PUT * delta res \<le> exp ((0 - 0) * 1) \<and>
     0 \<le> gamma res \<and> 0 \<le> vega res \<and> 0 \<le> option_value PUT * rho res \<and>
     bs_value res \<le> (if PUT = CALL then 100 * exp ((0 - 0) * 1) else 120 * exp (- 0 * (1::real)))"
    using bs_result_bounds [OF logistic_bounded _ _ _ _ r] by simp
  with r logistic_bounded show ?thesis
    by (intro exI [of _ res]) simp
qed

subsection \<open>Negative volatility\<close>

lemma bs_d1_neg_vol:
  "bs_d1 s x t b (- v) = map_sum id uminus (bs_d1 s x t b v)"
  by (simp add: bs_d1_eq)

lemma bs_closed_form_neg_vol:
  "bs_value (bs_closed_form N CALL s x t r b (- v) (- d)) = - bs_value (bs_closed_form N PUT s x t r b v d)"
  "bs_value (bs_closed_form N PUT s x t r b (- v) (- d)) = - bs_value (bs_closed_form N CALL s x t r b v d)"
proof -
  have e: "- d - - v * sqrt t = - (d - v * sqrt t)" by simp
  have e2: "- (- d - - v * sqrt t) = d - v * sqrt t" "- v * sqrt t - - d = d - v * sqrt t" by simp_all
  show "bs_value (bs_closed_form N CALL s x t r b (- v) (- d)) = - bs_value (bs_closed_form N PUT s x t r b v d)"
    by (simp only: bs_closed_form_def Let_def OptionType.case BSResult.select_convs e minus_diff_eq)
  show "bs_value (bs_closed_form N PUT s x t r b (- v) (- d)) = - bs_value (bs_closed_form N CALL s x t r b v d)"
    by (simp only: bs_closed_form_def Let_def OptionType.case BSResult.select_convs e2 minus_diff_eq
          minus_minus)
qed

text \<open>C27: the pricer does not reject a negative volatility (its guard tests only
  \<open>v == 0\<close>): with \<open>-v\<close> the general branch prices a call at minus the put price
  with \<open>v\<close>, and a put at minus the call price, raising exactly when those raise.\<close>

theorem bs_negative_vol:
  assumes "0 < t" "v \<noteq> 0"
  shows "map_sum id bs_value (calculate_black_scholes N (Known CALL) s x t r b (- v)) =
           map_sum id (\<lambda>p. - bs_value p) (calculate_black_scholes N (Known PUT) s x t r b v) \<and>
         map_sum id bs_value (calculate_black_scholes N (Known PUT) s x t r b (- v)) =
           map_sum id (\<lambda>c. - bs_value c) (calculate_black_scholes N (Known CALL) s x t r b v)"
  using assms
  by (cases "bs_d1 s x t b v")
     (simp_all add: calculate_black_scholes_general bs_general_def bs_d1_neg_vol
        bs_closed_form_neg_vol [of N s x t r b v, simplified])

theorem bs_negative_vol_witness:
  "(0::real) < 1 \<and> (1 / 5 :: real) \<noteq> 0 \<and>
   map_sum id bs_value (calculate_black_scholes logistic_dist (Known CALL) 100 120 1 0 0 (- (1 / 5))) =
     map_sum id (\<lambda>p. - bs_value p) (calculate_black_scholes logistic_dist (Known PUT) 100 120 1 0 0 (1 / 5)) \<and>
   map_sum id bs_value (calculate_black_scholes logistic_dist (Known PUT) 100 120 1 0 0 (- (1 / 5))) =
     map_sum id (\<lambda>c. - bs_value c) (calculate_black_scholes logistic_dist (Known CALL) 100 120 1 0 0 (1 / 5))"
  using bs_negative_vol [of 1 "1 / 5" logistic_dist 100 120 0 0] by simp

end
