(* ===== verification/AsianOptions.thy ===== *)
theory AsianOptions
  imports Helpers BlackScholes
begin

text \<open>
  \<open>asian_options.py\<close>: the Turnbull-Wakeman approximation for average-price
  options on futures.  \<open>floating_ratio\<close> and \<open>get_swap\<close> blend the forward and the
  realised average by the share of the averaging window still open; \<open>tw_m\<close> is the
  raw second moment of the average and \<open>tw_sigmaA\<close> the matching volatility;
  \<open>tw_vol\<close> is the volatility \<open>turnbull_wakeman\<close> computes from the dates,
  \<open>tw_adjust\<close> its regime-dependent strike and payoff multiplier, and
  \<open>turnbull_wakeman\<close> the whole function, which delegates to
  \<open>calculate_black_scholes\<close> with zero cost of carry.
\<close>

definition floating_ratio :: "date \<Rightarrow> date \<Rightarrow> date \<Rightarrow> real" where
  "floating_ratio pricing_date start_date end_date =
     (if pricing_date > end_date then 0
      else if start_date < pricing_date then
        (let total = end_date - start_date + 1;
             open_part = end_date - pricing_date + 1
         in real_of_int open_part / real_of_int total)
      else 1)"

definition get_swap :: "real \<Rightarrow> real \<Rightarrow> date \<Rightarrow> date \<Rightarrow> date \<Rightarrow> real" where
  "get_swap forward realized pd sd ed =
     (let open_ratio = floating_ratio pd sd ed
      in open_ratio * forward + (1 - open_ratio) * realized)"

definition tw_m :: "real \<Rightarrow> real \<Rightarrow> real \<Rightarrow> real" where
  "tw_m bullet_vol t_end tau =
     (if bullet_vol = 0 then 0
      else if t_end = tau then exp (bullet_vol ^ 2 * t_end)
      else
        (let m = (2 * exp (bullet_vol ^ 2 * t_end)
                  - 2 * exp (bullet_vol ^ 2 * tau) * (1 + bullet_vol ^ 2 * (t_end - tau)))
                 / (bullet_vol ^ 4 * (t_end - tau) ^ 2)
         in if m < 0 then 0 else m))"

definition tw_sigmaA :: "real \<Rightarrow> real \<Rightarrow> py_error + real" where
  "tw_sigmaA m t_end =
     (if m = 0 then Inr 0
      else if t_end \<le> 0 then Inr 0
      else sum_bind (py_log m) (\<lambda>l. py_sqrt (l / t_end)))"

definition tw_vol :: "date \<Rightarrow> date \<Rightarrow> date \<Rightarrow> real \<Rightarrow> py_error + real" where
  "tw_vol pd sd ed sigma =
     (let T_end = time_to_maturity pd ed;
          T_start = max 0 (time_to_maturity pd sd);
          m = tw_m sigma T_end T_start
      in tw_sigmaA m T_end)"

definition tw_adjust ::
  "date \<Rightarrow> date \<Rightarrow> date \<Rightarrow> real \<Rightarrow> real \<Rightarrow> real \<Rightarrow> real \<Rightarrow> real \<Rightarrow> real
   \<Rightarrow> real \<times> real \<times> real" where
  "tw_adjust pd sd ed swap forward realized X T_averaging_period T_open_period =
     (if pd \<ge> ed then (swap, X, 1)
      else if pd > sd then
        (let X_HAT = X * T_averaging_period / T_open_period
                     - realized * (T_averaging_period - T_open_period) / T_open_period
         in if X_HAT > 0 then (forward, X_HAT, T_open_period / T_averaging_period)
            else (swap, X, 1))
      else (swap, X, 1))"

definition turnbull_wakeman ::
  "norm_dist \<Rightarrow> OptArg \<Rightarrow> date \<Rightarrow> date \<Rightarrow> date \<Rightarrow> real \<Rightarrow> real \<Rightarrow> real \<Rightarrow> real \<Rightarrow> real
   \<Rightarrow> py_error + real" where
  "turnbull_wakeman N option_type pd sd ed bullet_vol forward realized strike r =
     (let swap = get_swap forward realized pd sd ed;
          T_end = time_to_maturity pd ed;
          T_averaging_period = averaging_period sd ed;
          T_open_period = min T_averaging_period (averaging_period pd ed)
      in sum_bind (tw_vol pd sd ed bullet_vol) (\<lambda>v_asian.
           case tw_adjust pd sd ed swap forward realized strike T_averaging_period T_open_period of
             (swap', X_HAT, multiplier) \<Rightarrow>
               sum_bind (calculate_black_scholes N option_type swap' X_HAT T_end r 0 v_asian)
                 (\<lambda>res. Inr (bs_value res * multiplier))))"

subsection \<open>The open ratio and the synthetic swap\<close>

lemma floating_ratio_open:
  assumes "sd < pd" "pd \<le> ed"
  shows "floating_ratio pd sd ed = averaging_period pd ed / averaging_period sd ed"
proof -
  have "0 < real_of_int (ed - sd + 1)" using assms by simp
  then show ?thesis
    using assms by (simp add: floating_ratio_def averaging_period_def field_simps)
qed

lemma floating_ratio_range: "0 \<le> floating_ratio pd sd ed \<and> floating_ratio pd sd ed \<le> 1"
proof (cases "sd < pd \<and> pd \<le> ed")
  case True
  then have p: "0 < averaging_period pd ed" "averaging_period pd ed \<le> averaging_period sd ed"
    by simp_all
  then have "0 \<le> averaging_period pd ed / averaging_period sd ed"
    by (intro divide_nonneg_nonneg) linarith+
  moreover have "averaging_period pd ed / averaging_period sd ed \<le> 1"
    using p by (subst divide_le_eq_1_pos) linarith+
  ultimately show ?thesis
    using True by (simp add: floating_ratio_open)
next
  case False
  then show ?thesis by (auto simp: floating_ratio_def)
qed

text \<open>C15: the open ratio never increases as the pricing date advances.\<close>

theorem floating_ratio_antimono:
  assumes "pd \<le> pd'"
  shows "floating_ratio pd' sd ed \<le> floating_ratio pd sd ed"
proof -
  have "0 \<le> floating_ratio pd' sd ed" "floating_ratio pd sd ed \<le> 1"
    using floating_ratio_range by blast+
  moreover have "floating_ratio pd' sd ed \<le> floating_ratio pd sd ed"
    if "sd < pd" "pd' \<le> ed"
  proof -
    have "averaging_period pd' ed \<le> averaging_period pd ed" "0 \<le> averaging_period sd ed"
      using that assms by (simp_all add: averaging_period_nonneg)
    with that assms show ?thesis
      by (simp add: floating_ratio_open divide_right_mono)
  qed
  ultimately show ?thesis
    using assms by (auto simp: floating_ratio_def)
qed

theorem floating_ratio_antimono_witness:
  "(3::int) \<le> 10 \<and> floating_ratio 10 1 28 \<le> floating_ratio 3 1 28"
  using floating_ratio_antimono [of 3 10 1 28] by simp

text \<open>C16: on a window that has not ended more than a day ago, the three branches of
  \<open>floating_ratio\<close> agree with one formula: the open ratio is the number of fixing
  days still open, \<open>ed - pd + 1\<close>, over the number of fixing days,
  \<open>ed - sd + 1\<close>; the hard-coded 1 on the first fixing day and 0 the day after the
  last are the values of the interior formula there.\<close>

theorem floating_ratio_formula:
  assumes "sd \<le> pd" "pd \<le> ed + 1"
  shows "floating_ratio pd sd ed = real_of_int (ed - pd + 1) / real_of_int (ed - sd + 1)"
proof -
  consider "pd = ed + 1" | "pd = sd" "sd \<le> ed" | "sd < pd" "pd \<le> ed"
    using assms by linarith
  then show ?thesis
  proof cases
    case 1
    then show ?thesis by (simp add: floating_ratio_def)
  next
    case 2
    then have "real_of_int (ed - sd + 1) \<noteq> 0" by simp
    with 2 show ?thesis by (simp add: floating_ratio_def)
  next
    case 3
    then show ?thesis by (simp add: floating_ratio_def Let_def)
  qed
qed

lemma floating_ratio_pos: "pd \<le> ed \<Longrightarrow> 0 < floating_ratio pd sd ed"
  by (simp add: floating_ratio_def)

text \<open>C14: the open ratio lies in \<open>[0, 1]\<close> for all dates, inverted windows
  included (so \<open>open_part / total\<close> never divides by zero), and it is 0 exactly
  after the end date.\<close>

theorem floating_ratio_bounds:
  "0 \<le> floating_ratio pd sd ed \<and> floating_ratio pd sd ed \<le> 1 \<and>
   (floating_ratio pd sd ed = 0 \<longleftrightarrow> ed < pd)"
  using floating_ratio_range [of pd sd ed] floating_ratio_pos [of pd ed sd]
  by (auto simp: floating_ratio_def)

lemma get_swap_pos:
  assumes "pd \<le> ed" "0 < forward" "0 \<le> realized"
  shows "0 < get_swap forward realized pd sd ed"
proof -
  let ?q = "floating_ratio pd sd ed"
  have "0 < ?q" "?q \<le> 1" using assms floating_ratio_pos floating_ratio_range by blast+
  then have "0 < ?q * forward" "0 \<le> (1 - ?q) * realized"
    using assms by simp_all
  then show ?thesis by (simp add: get_swap_def Let_def)
qed

theorem floating_ratio_formula_witness:
  "(1::int) \<le> 10 \<and> (10::int) \<le> 28 + 1 \<and> floating_ratio 10 1 28 = 19 / 28"
  using floating_ratio_formula [of 1 10 28] by simp

text \<open>C17: the synthetic swap is a convex combination of the forward and the realised
  average, so it lies between them.\<close>

theorem get_swap_between:
  "min forward realized \<le> get_swap forward realized pd sd ed \<and>
   get_swap forward realized pd sd ed \<le> max forward realized"
proof -
  let ?q = "floating_ratio pd sd ed"
  have q: "0 \<le> ?q" "?q \<le> 1" using floating_ratio_range by blast+
  have "?q * min forward realized + (1 - ?q) * min forward realized \<le> get_swap forward realized pd sd ed"
    using q by (auto simp: get_swap_def Let_def intro!: add_mono mult_left_mono)
  moreover have "get_swap forward realized pd sd ed \<le> ?q * max forward realized + (1 - ?q) * max forward realized"
    using q by (auto simp: get_swap_def Let_def intro!: add_mono mult_left_mono)
  ultimately show ?thesis by (simp add: algebra_simps)
qed

subsection \<open>The regime adjustment\<close>

text \<open>The adjusted forward, strike and multiplier keep the payoff of the blended swap:
  \<open>multiplier * (swap' - X_HAT) = swap - strike\<close> in every regime.\<close>

lemma tw_adjust_payoff:
  assumes "tw_adjust pd sd ed (get_swap forward realized pd sd ed) forward realized strike
             (averaging_period sd ed) (min (averaging_period sd ed) (averaging_period pd ed))
           = (swap', X_HAT, mu)"
  shows "mu * (swap' - X_HAT) = get_swap forward realized pd sd ed - strike"
proof (cases "sd < pd \<and> pd < ed")
  case True
  define Ta where "Ta = averaging_period sd ed"
  define To where "To = averaging_period pd ed"
  have pos: "0 < To" "To \<le> Ta" using True by (simp_all add: Ta_def To_def)
  then have To: "min Ta To = To" by simp
  have q: "floating_ratio pd sd ed = To / Ta"
    using True by (simp add: floating_ratio_open Ta_def To_def)
  have adj: "tw_adjust pd sd ed (get_swap forward realized pd sd ed) forward realized strike Ta To
             = (swap', X_HAT, mu)"
    using assms To by (simp add: Ta_def To_def)
  let ?X = "strike * Ta / To - realized * (Ta - To) / To"
  show ?thesis
  proof (cases "0 < ?X")
    case X: True
    then have "swap' = forward" "X_HAT = ?X" "mu = To / Ta"
      using adj True by (simp_all add: tw_adjust_def Let_def)
    with pos show ?thesis
      by (simp add: get_swap_def q field_simps, metis distrib_left)
  next
    case False
    then show ?thesis
      using adj True by (auto simp: tw_adjust_def Let_def)
  qed
next
  case False
  then show ?thesis using assms by (auto simp: tw_adjust_def Let_def split: if_splits)
qed

lemma tw_adjust_pos:
  assumes "pd < ed" "0 < forward" "0 \<le> realized" "0 < strike"
    and "tw_adjust pd sd ed (get_swap forward realized pd sd ed) forward realized strike Ta To
         = (swap', X_HAT, mu)"
  shows "0 < swap' \<and> 0 < X_HAT"
proof -
  have "0 < get_swap forward realized pd sd ed"
    using assms by (intro get_swap_pos) simp_all
  with assms show ?thesis
    by (auto simp: tw_adjust_def Let_def split: if_splits)
qed



lemma tw_adjust_finished:
  "ed \<le> pd \<Longrightarrow> tw_adjust pd sd ed swap forward realized X Ta To = (swap, X, 1)"
  by (simp add: tw_adjust_def)

subsection \<open>The second moment and the effective volatility\<close>

lemma tw_m_raw_eq:
  fixes sigma T tau :: real
  assumes "sigma \<noteq> 0" "T \<noteq> tau"
  shows "(2 * exp (sigma ^ 2 * T) - 2 * exp (sigma ^ 2 * tau) * (1 + sigma ^ 2 * (T - tau)))
           / (sigma ^ 4 * (T - tau) ^ 2)
       = exp (sigma ^ 2 * tau) * (2 * (exp (sigma ^ 2 * (T - tau)) - 1 - sigma ^ 2 * (T - tau))
           / (sigma ^ 2 * (T - tau)) ^ 2)"
proof -
  have e: "exp (sigma ^ 2 * T) = exp (sigma ^ 2 * tau) * exp (sigma ^ 2 * (T - tau))"
    by (simp add: exp_add [symmetric] algebra_simps)
  have p: "sigma ^ 4 * (T - tau) ^ 2 = (sigma ^ 2 * (T - tau)) ^ 2"
    by (simp add: power_mult_distrib flip: power_mult)
  show ?thesis
    unfolding e p by (simp add: algebra_simps)
qed

lemma exp_min_max_split:
  fixes sigma T tau :: real
  shows "exp (sigma ^ 2 * min T tau) = exp (sigma ^ 2 * tau) * min 1 (exp (sigma ^ 2 * (T - tau)))"
    and "exp (sigma ^ 2 * max T tau) = exp (sigma ^ 2 * tau) * max 1 (exp (sigma ^ 2 * (T - tau)))"
proof -
  have split: "exp (sigma ^ 2 * T) = exp (sigma ^ 2 * tau) * exp (sigma ^ 2 * (T - tau))"
    by (simp add: exp_add [symmetric] algebra_simps)
  show "exp (sigma ^ 2 * min T tau) = exp (sigma ^ 2 * tau) * min 1 (exp (sigma ^ 2 * (T - tau)))"
  proof (cases "T \<le> tau")
    case True
    then have "sigma ^ 2 * (T - tau) \<le> 0" by (simp add: mult_nonneg_nonpos)
    with True show ?thesis by (simp add: split min_def)
  next
    case False
    then have "0 \<le> sigma ^ 2 * (T - tau)" by simp
    with False show ?thesis by (simp add: min_def)
  qed
  show "exp (sigma ^ 2 * max T tau) = exp (sigma ^ 2 * tau) * max 1 (exp (sigma ^ 2 * (T - tau)))"
  proof (cases "T \<le> tau")
    case True
    then have "sigma ^ 2 * (T - tau) \<le> 0" by (simp add: mult_nonneg_nonpos)
    with True show ?thesis by (simp add: max_def)
  next
    case False
    then have "0 \<le> sigma ^ 2 * (T - tau)" by simp
    with False show ?thesis by (simp add: split max_def)
  qed
qed

lemma tw_m_factor:
  assumes "sigma \<noteq> 0" "T \<noteq> tau"
  shows "tw_m sigma T tau = exp (sigma ^ 2 * tau) *
           (2 * (exp (sigma ^ 2 * (T - tau)) - 1 - sigma ^ 2 * (T - tau)) / (sigma ^ 2 * (T - tau)) ^ 2)"
proof -
  let ?d = "sigma ^ 2 * (T - tau)"
  have "?d \<noteq> 0" using assms by simp
  then have "min 1 (exp ?d) \<le> 2 * (exp ?d - 1 - ?d) / ?d ^ 2"
    by (rule exp_moment_ratio_bounds(1))
  moreover have "0 < min 1 (exp ?d)" by simp
  ultimately have "0 < 2 * (exp ?d - 1 - ?d) / ?d ^ 2"
    by linarith
  then have "0 < exp (sigma ^ 2 * tau) * (2 * (exp ?d - 1 - ?d) / ?d ^ 2)"
    by (rule mult_pos_pos [OF exp_gt_zero])
  then show ?thesis
    using assms by (simp add: tw_m_def tw_m_raw_eq)
qed

lemma tw_m_between:
  assumes "sigma \<noteq> 0"
  shows "exp (sigma ^ 2 * min T tau) \<le> tw_m sigma T tau \<and>
         tw_m sigma T tau \<le> exp (sigma ^ 2 * max T tau)"
proof (cases "T = tau")
  case True
  with assms show ?thesis by (simp add: tw_m_def)
next
  case False
  let ?d = "sigma ^ 2 * (T - tau)"
  let ?R = "2 * (exp ?d - 1 - ?d) / ?d ^ 2"
  have d: "?d \<noteq> 0" using assms False by simp
  have lo: "exp (sigma ^ 2 * min T tau) \<le> exp (sigma ^ 2 * tau) * ?R"
    unfolding exp_min_max_split
    by (rule mult_left_mono [OF exp_moment_ratio_bounds(1) [OF d]]) simp
  have hi: "exp (sigma ^ 2 * tau) * ?R \<le> exp (sigma ^ 2 * max T tau)"
    unfolding exp_min_max_split
    by (rule mult_left_mono [OF exp_moment_ratio_bounds(2) [OF d]]) simp
  show ?thesis
    using lo hi tw_m_factor [OF assms False] by simp
qed

lemma tw_m_gt_one:
  assumes "sigma \<noteq> 0" "0 < T" "0 \<le> tau"
  shows "1 < tw_m sigma T tau"
proof (cases "tau < T")
  case True
  let ?d = "sigma ^ 2 * (T - tau)"
  have "0 < ?d" using assms True by simp
  then have "1 < 2 * (exp ?d - 1 - ?d) / ?d ^ 2"
    by (rule exp_moment_ratio_gt_one)
  moreover have "1 \<le> exp (sigma ^ 2 * tau)" using assms by simp
  ultimately have "1 * (2 * (exp ?d - 1 - ?d) / ?d ^ 2)
                   \<le> exp (sigma ^ 2 * tau) * (2 * (exp ?d - 1 - ?d) / ?d ^ 2)"
    by (intro mult_right_mono) simp_all
  with \<open>1 < 2 * (exp ?d - 1 - ?d) / ?d ^ 2\<close>
  have "1 < exp (sigma ^ 2 * tau) * (2 * (exp ?d - 1 - ?d) / ?d ^ 2)"
    by linarith
  then show ?thesis
    using tw_m_factor [OF assms(1)] True by simp
next
  case False
  then have "min T tau = T" by simp
  then have "exp (sigma ^ 2 * T) \<le> tw_m sigma T tau"
    using tw_m_between [OF assms(1), of T tau] by simp
  moreover have "1 < exp (sigma ^ 2 * T)" using assms by simp
  ultimately show ?thesis by linarith
qed

text \<open>C4: for a non-zero bullet volatility the raw second moment is positive and lies
  between \<open>exp (sigma^2 min T tau)\<close> and \<open>exp (sigma^2 max T tau)\<close>; in particular
  the clamp \<open>if m < 0\<close> of \<open>tw_m\<close> never fires in exact arithmetic.\<close>

theorem tw_m_bounds:
  assumes "sigma \<noteq> 0"
  shows "0 < tw_m sigma T tau \<and> exp (sigma ^ 2 * min T tau) \<le> tw_m sigma T tau \<and>
         tw_m sigma T tau \<le> exp (sigma ^ 2 * max T tau)"
  using tw_m_between [OF assms, of T tau] exp_gt_zero [of "sigma ^ 2 * min T tau"] by linarith

theorem tw_m_bounds_witness:
  "(2::real) \<noteq> 0 \<and> 0 < tw_m 2 1 0 \<and>
   exp (2 ^ 2 * min 1 0) \<le> tw_m 2 1 0 \<and> tw_m 2 1 0 \<le> exp (2 ^ 2 * max (1::real) 0)"
  using tw_m_bounds [of 2 1 0] by simp

lemma tw_m_ge_one:
  assumes "0 \<le> T" "0 \<le> tau"
  shows "sigma \<noteq> 0 \<Longrightarrow> 1 \<le> tw_m sigma T tau"
proof -
  assume s: "sigma \<noteq> 0"
  have "1 \<le> exp (sigma ^ 2 * min T tau)"
    using assms by simp
  then show ?thesis using tw_m_between [OF s, of T tau] by linarith
qed

lemma tw_sigmaA_ge_one:
  assumes "1 \<le> m"
  shows "tw_sigmaA m T = Inr (if T \<le> 0 then 0 else sqrt (ln m / T))"
  using assms by (simp add: tw_sigmaA_def py_simps)

lemma tw_sigmaA_zero [simp]: "tw_sigmaA 0 T = Inr 0"
  by (simp add: tw_sigmaA_def)

lemma tw_vol_eq:
  "tw_vol pd sd ed sigma =
     (if sigma = 0 \<or> ed \<le> pd then Inr 0
      else Inr (sqrt (ln (tw_m sigma (time_to_maturity pd ed) (max 0 (time_to_maturity pd sd)))
                      / time_to_maturity pd ed)))"
proof (cases "sigma = 0")
  case True
  then show ?thesis by (simp add: tw_vol_def tw_m_def)
next
  case False
  let ?T = "time_to_maturity pd ed" and ?tau = "max 0 (time_to_maturity pd sd)"
  show ?thesis
  proof (cases "ed \<le> pd")
    case True
    then have "?T \<le> 0" by (simp add: time_to_maturity_def)
    then show ?thesis
      using False True by (simp add: tw_vol_def Let_def tw_sigmaA_def)
  next
    case ed: False
    then have T: "0 < ?T" by simp
    then have "1 \<le> tw_m sigma ?T ?tau"
      using False by (intro tw_m_ge_one) simp_all
    then show ?thesis
      using False ed T by (simp add: tw_vol_def Let_def tw_sigmaA_ge_one)
  qed
qed

text \<open>C5: the volatility step of \<open>turnbull_wakeman\<close> never raises: \<open>math.log\<close>
  always sees a positive moment and \<open>math.sqrt\<close> a non-negative argument, for all
  dates, inverted averaging windows included.\<close>

theorem tw_vol_total: "\<exists>v. tw_vol pd sd ed sigma = Inr v \<and> 0 \<le> v"
proof (cases "sigma = 0 \<or> ed \<le> pd")
  case True
  then show ?thesis by (simp add: tw_vol_eq)
next
  case False
  let ?T = "time_to_maturity pd ed" and ?tau = "max 0 (time_to_maturity pd sd)"
  have T: "0 < ?T" using False by simp
  then have "1 \<le> tw_m sigma ?T ?tau"
    using False by (intro tw_m_ge_one) simp_all
  then have "0 \<le> ln (tw_m sigma ?T ?tau) / ?T"
    using T by (simp add: divide_nonneg_pos)
  then show ?thesis
    using False by (simp add: tw_vol_eq)
qed

lemma tw_vol_pos:
  assumes "sigma \<noteq> 0" "pd < ed" "tw_vol pd sd ed sigma = Inr v"
  shows "0 < v"
proof -
  let ?T = "time_to_maturity pd ed" and ?tau = "max 0 (time_to_maturity pd sd)"
  have T: "0 < ?T" using assms by simp
  then have "1 < tw_m sigma ?T ?tau"
    using assms by (intro tw_m_gt_one) simp_all
  then have "0 < ln (tw_m sigma ?T ?tau) / ?T"
    using T by simp
  moreover have "v = sqrt (ln (tw_m sigma ?T ?tau) / ?T)"
    using assms by (simp add: tw_vol_eq)
  ultimately show ?thesis
    by (simp only: real_sqrt_gt_zero)
qed

lemma tw_vol_moment_bounds:
  assumes "sigma \<noteq> 0" "sd \<le> ed" "pd < ed"
  defines "T \<equiv> time_to_maturity pd ed" and "tau \<equiv> max 0 (time_to_maturity pd sd)"
  shows "sigma ^ 2 * tau \<le> ln (tw_m sigma T tau) \<and> ln (tw_m sigma T tau) \<le> sigma ^ 2 * T"
proof -
  have tau: "0 \<le> tau" "tau \<le> T"
    using assms by (auto simp: T_def tau_def)
  have mb: "exp (sigma ^ 2 * tau) \<le> tw_m sigma T tau" "tw_m sigma T tau \<le> exp (sigma ^ 2 * T)"
    using tw_m_between [OF assms(1), of T tau] tau by (simp_all add: min_absorb2 max_absorb1)
  have m0: "0 < tw_m sigma T tau"
    using mb(1) exp_gt_zero by (rule less_le_trans [rotated])
  have "sigma ^ 2 * tau \<le> ln (tw_m sigma T tau)"
    using mb(1) m0 by (simp add: ln_ge_iff)
  moreover have "ln (tw_m sigma T tau) \<le> ln (exp (sigma ^ 2 * T))"
    using mb(2) m0 by (subst ln_le_cancel_iff) simp_all
  ultimately show ?thesis by simp
qed

text \<open>C6: when the averaging window is well formed, the effective volatility
  \<open>v_asian\<close> is at most the bullet volatility and at least
  \<open>|sigma| * sqrt (T_start / T_end)\<close>.\<close>

theorem tw_vol_bounds:
  assumes "sd \<le> ed" "pd < ed" "tw_vol pd sd ed sigma = Inr v"
  shows "\<bar>sigma\<bar> * sqrt (max 0 (time_to_maturity pd sd) / time_to_maturity pd ed) \<le> v \<and>
         v \<le> \<bar>sigma\<bar>"
proof (cases "sigma = 0")
  case True
  with assms show ?thesis by (simp add: tw_vol_eq)
next
  case False
  let ?T = "time_to_maturity pd ed" and ?tau = "max 0 (time_to_maturity pd sd)"
  let ?l = "ln (tw_m sigma ?T ?tau)"
  have T: "0 < ?T" using assms by simp
  have v: "v = sqrt (?l / ?T)"
    using assms False by (simp add: tw_vol_eq)
  have l: "sigma ^ 2 * ?tau \<le> ?l" "?l \<le> sigma ^ 2 * ?T"
    using tw_vol_moment_bounds [OF False assms(1,2)] by simp_all
  have "?l / ?T \<le> sigma ^ 2"
    using l(2) T by (simp add: divide_le_eq)
  then have hi: "v \<le> \<bar>sigma\<bar>"
    unfolding v using real_sqrt_le_mono by fastforce
  have "sigma ^ 2 * (?tau / ?T) \<le> ?l / ?T"
    using l(1) T by (simp add: divide_right_mono)
  then have "sqrt (sigma ^ 2 * (?tau / ?T)) \<le> v"
    unfolding v by (rule real_sqrt_le_mono)
  then have lo: "\<bar>sigma\<bar> * sqrt (?tau / ?T) \<le> v"
    by (simp only: real_sqrt_mult real_sqrt_abs)
  from lo hi show ?thesis by blast
qed

theorem tw_vol_bounds_witness:
  "0 \<le> (10::int) \<and> 0 < (10::int) \<and> tw_vol 0 0 10 0 = Inr 0 \<and>
   \<bar>0::real\<bar> * sqrt (max 0 (time_to_maturity 0 0) / time_to_maturity 0 10) \<le> 0 \<and>
   0 \<le> \<bar>0::real\<bar>"
proof -
  have v: "tw_vol 0 0 10 0 = Inr 0" by (simp add: tw_vol_eq)
  show ?thesis using tw_vol_bounds [OF _ _ v] v by simp
qed

lemma tw_m_gt_exp_end:
  assumes "sigma \<noteq> 0" "T < tau"
  shows "exp (sigma ^ 2 * T) < tw_m sigma T tau"
proof -
  let ?d = "sigma ^ 2 * (T - tau)"
  have d: "?d < 0" using assms by (simp add: mult_pos_neg)
  have "exp (sigma ^ 2 * tau) * exp ?d < exp (sigma ^ 2 * tau) * (2 * (exp ?d - 1 - ?d) / ?d ^ 2)"
    by (rule mult_strict_left_mono [OF exp_moment_ratio_gt_exp [OF d]]) simp
  moreover have "exp (sigma ^ 2 * tau) * exp ?d = exp (sigma ^ 2 * T)"
    by (simp add: exp_add [symmetric] algebra_simps)
  ultimately show ?thesis
    using tw_m_factor [OF assms(1)] assms(2) by simp
qed

text \<open>C26: on an inverted averaging window (\<open>start_date > end_date\<close>, which the
  code does not reject) with the pricing date before the end, the effective volatility
  strictly exceeds the bullet volatility, the opposite of what averaging does on a
  well-formed window (C6).\<close>

theorem tw_vol_inverted_window:
  assumes "pd < ed" "ed < sd" "sigma \<noteq> 0" "tw_vol pd sd ed sigma = Inr v"
  shows "\<bar>sigma\<bar> < v"
proof -
  let ?T = "time_to_maturity pd ed" and ?tau = "max 0 (time_to_maturity pd sd)"
  have T: "0 < ?T" using assms(1) by simp
  have tau: "?T < ?tau"
    using assms(1,2) by (simp add: time_to_maturity_def divide_strict_right_mono)
  have v: "v = sqrt (ln (tw_m sigma ?T ?tau) / ?T)"
    using assms(1,3,4) by (simp add: tw_vol_eq)
  have "exp (sigma ^ 2 * ?T) < tw_m sigma ?T ?tau"
    by (rule tw_m_gt_exp_end [OF assms(3) tau])
  then have "sigma ^ 2 * ?T < ln (tw_m sigma ?T ?tau)"
    by (metis exp_gt_zero exp_less_cancel_iff exp_ln less_trans)
  then have "sigma ^ 2 < ln (tw_m sigma ?T ?tau) / ?T"
    using T by (simp add: less_divide_eq)
  then have "sqrt (sigma ^ 2) < v"
    unfolding v by (rule real_sqrt_less_mono)
  then show ?thesis by simp
qed

theorem tw_vol_inverted_window_witness:
  "\<exists>v. (0::int) < 10 \<and> (10::int) < 20 \<and> (3 / 10 :: real) \<noteq> 0 \<and>
     tw_vol 0 20 10 (3 / 10) = Inr v \<and> \<bar>3 / 10 :: real\<bar> < v"
proof -
  obtain v where v: "tw_vol 0 20 10 (3 / 10) = Inr v"
    by (simp add: tw_vol_eq)
  then have "\<bar>3 / 10 :: real\<bar> < v"
    by (rule tw_vol_inverted_window [rotated 3]) simp_all
  with v show ?thesis by auto
qed

end
