(* ===== verification/ZeroVolLimit.thy ===== *)
theory ZeroVolLimit
  imports BlackScholes
begin

text \<open>
  Continuity of the vanilla pricer at zero volatility (specification, testable
  property 3).  For \<open>v > 0\<close> the pricer takes its general branch; as \<open>v \<rightarrow> 0+\<close>,
  \<open>d1\<close> and \<open>d2\<close> both tend to \<open>+\<infinity>\<close>, \<open>-\<infinity>\<close> or \<open>0\<close> according to the sign
  of \<open>L = ln (s / x) + b t\<close>, the log-moneyness of the forward.  The evaluator is
  assumed symmetric, continuous at 0 and to tend to 1 at \<open>+\<infinity>\<close>.  The price is
  continuous there (C22); the delta is not at the money forward (C23).  Away from the
  money every Greek is continuous there (C25), for a density whose tails satisfy
  \<open>z \<phi>(z) \<rightarrow> 0\<close> (\<open>pdf_tails\<close>): the cumulative terms tend to 0 or 1 and the
  density terms, including \<open>\<phi>(d1) / v\<close> in gamma, tend to 0.
\<close>

subsection \<open>Limits of d1 and d2\<close>

lemma d_at_top:
  fixes L k a :: real
  assumes "0 < L" "0 < k"
  shows "filterlim (\<lambda>v. L / (v * k) + a * v) at_top (at_right 0)"
proof -
  have "((\<lambda>v::real. a * v) \<longlongrightarrow> a * 0) (at_right 0)"
    by (rule tendsto_mult [OF tendsto_const tendsto_ident_at])
  moreover have "filterlim (\<lambda>v. (L / k) * inverse v) at_top (at_right (0::real))"
    by (rule filterlim_tendsto_pos_mult_at_top [OF tendsto_const _ filterlim_inverse_at_top_right])
       (use assms in simp)
  ultimately have "filterlim (\<lambda>v. a * v + (L / k) * inverse v) at_top (at_right (0::real))"
    by (rule filterlim_tendsto_add_at_top)
  moreover have "(\<lambda>v. a * v + (L / k) * inverse v) = (\<lambda>v. L / (v * k) + a * v)"
    by (rule ext) (simp add: divide_inverse inverse_mult_distrib ac_simps)
  ultimately show ?thesis by simp
qed

lemma d_at_bot:
  fixes L k a :: real
  assumes "L < 0" "0 < k"
  shows "filterlim (\<lambda>v. L / (v * k) + a * v) at_bot (at_right 0)"
proof -
  have "filterlim (\<lambda>v. (- L) / (v * k) + (- a) * v) at_top (at_right 0)"
    using assms by (intro d_at_top) simp_all
  moreover have "(\<lambda>v. (- L) / (v * k) + (- a) * v) = (\<lambda>v. - (L / (v * k) + a * v))"
    by (rule ext) simp
  ultimately show ?thesis
    by (intro filterlim_uminus_at_bot [THEN iffD2]) simp
qed

lemma cdf_d_limit_zero:
  assumes "cdf_symmetric N" "isCont (norm_cdf N) 0"
  shows "((\<lambda>v. norm_cdf N (a * v)) \<longlongrightarrow> 1 / 2) (at_right 0)"
proof -
  have "((\<lambda>v::real. a * v) \<longlongrightarrow> a * 0) (at_right 0)"
    by (rule tendsto_mult [OF tendsto_const tendsto_ident_at])
  then have "((\<lambda>v::real. a * v) \<longlongrightarrow> 0) (at_right 0)"
    by simp
  then have "((\<lambda>v. norm_cdf N (a * v)) \<longlongrightarrow> norm_cdf N 0) (at_right 0)"
    by (rule isCont_tendsto_compose [OF assms(2)])
  then show ?thesis
    by (simp add: cdf_symmetric_zero [OF assms(1)])
qed

lemma cdf_d_limit_pos:
  assumes "(norm_cdf N \<longlongrightarrow> 1) at_top" "0 < L" "0 < k"
  shows "((\<lambda>v. norm_cdf N (L / (v * k) + a * v)) \<longlongrightarrow> 1) (at_right 0)"
  by (rule filterlim_compose [OF assms(1) d_at_top [OF assms(2,3)]])

lemma cdf_d_limit_neg:
  assumes "cdf_symmetric N" "(norm_cdf N \<longlongrightarrow> 1) at_top" "L < 0" "0 < k"
  shows "((\<lambda>v. norm_cdf N (L / (v * k) + a * v)) \<longlongrightarrow> 0) (at_right 0)"
proof -
  have "filterlim (\<lambda>v. - (L / (v * k) + a * v)) at_top (at_right 0)"
    using d_at_bot [OF assms(3,4)] by (rule filterlim_uminus_at_bot [THEN iffD1])
  then have "((\<lambda>v. norm_cdf N (- (L / (v * k) + a * v))) \<longlongrightarrow> 1) (at_right 0)"
    by (rule filterlim_compose [OF assms(2)])
  then have "((\<lambda>v. 1 - norm_cdf N (- (L / (v * k) + a * v))) \<longlongrightarrow> 1 - 1) (at_right 0)"
    by (rule tendsto_diff [OF tendsto_const])
  moreover have "(\<lambda>v. 1 - norm_cdf N (- (L / (v * k) + a * v)))
      = (\<lambda>v. norm_cdf N (L / (v * k) + a * v))"
    by (rule ext) (simp only: cdf_symmetric_neg [OF assms(1)] diff_diff_cancel)
  ultimately show ?thesis by simp
qed

lemma cdf_d_limit:
  assumes "cdf_symmetric N" "(norm_cdf N \<longlongrightarrow> 1) at_top" "isCont (norm_cdf N) 0" "0 < k"
  shows "((\<lambda>v. norm_cdf N (L / (v * k) + a * v))
           \<longlongrightarrow> (if 0 < L then 1 else if L < 0 then 0 else 1 / 2)) (at_right 0)"
proof -
  consider "0 < L" | "L < 0" | "L = 0" by linarith
  then show ?thesis
  proof cases
    case 1
    then show ?thesis using cdf_d_limit_pos [OF assms(2) 1 assms(4)] by simp
  next
    case 2
    then show ?thesis using cdf_d_limit_neg [OF assms(1,2) 2 assms(4)] by simp
  next
    case 3
    then show ?thesis using cdf_d_limit_zero [OF assms(1,3), of a] by simp
  qed
qed

lemma cdf_scaled_d_limit:
  assumes "cdf_symmetric N" "(norm_cdf N \<longlongrightarrow> 1) at_top" "0 < k" "c * L \<noteq> 0"
  shows "((\<lambda>v. norm_cdf N (c * (L / (v * k) + a * v)))
           \<longlongrightarrow> (if 0 < c * L then 1 else 0)) (at_right 0)"
proof -
  have eq: "(\<lambda>v. norm_cdf N (c * (L / (v * k) + a * v)))
            = (\<lambda>v. norm_cdf N ((c * L) / (v * k) + (c * a) * v))"
    by (rule ext) (simp add: distrib_left mult.assoc)
  show ?thesis
  proof (cases "0 < c * L")
    case True
    then show ?thesis
      unfolding eq using cdf_d_limit_pos [OF assms(2) True assms(3)] by simp
  next
    case False
    with assms(4) have "c * L < 0" by linarith
    then show ?thesis
      unfolding eq using cdf_d_limit_neg [OF assms(1,2) _ assms(3)] False by simp
  qed
qed

lemma tails_d_limit:
  fixes g :: "real \<Rightarrow> real" and L k a :: real
  assumes "(g \<longlongrightarrow> 0) at_top" "(g \<longlongrightarrow> 0) at_bot" "L \<noteq> 0" "0 < k"
  shows "((\<lambda>v. g (L / (v * k) + a * v)) \<longlongrightarrow> 0) (at_right 0)"
proof (cases "0 < L")
  case True
  show ?thesis by (rule filterlim_compose [OF assms(1) d_at_top [OF True assms(4)]])
next
  case False
  with assms(3) have neg: "L < 0" by simp
  show ?thesis by (rule filterlim_compose [OF assms(2) d_at_bot [OF neg assms(4)]])
qed

lemma pdf_d_limits:
  assumes "pdf_tails N" "L \<noteq> 0" "0 < k"
  shows "((\<lambda>v. norm_pdf N (L / (v * k) + a * v)) \<longlongrightarrow> 0) (at_right 0)"
    and "((\<lambda>v. v * norm_pdf N (L / (v * k) + a * v)) \<longlongrightarrow> 0) (at_right 0)"
    and "((\<lambda>v. norm_pdf N (L / (v * k) + a * v) / v) \<longlongrightarrow> 0) (at_right 0)"
proof -
  let ?d = "\<lambda>v. L / (v * k) + a * v"
  show p: "((\<lambda>v. norm_pdf N (?d v)) \<longlongrightarrow> 0) (at_right 0)"
    using pdf_tails_pdf [OF assms(1)] assms(2,3) by (rule tails_d_limit)
  have "((\<lambda>v. v * norm_pdf N (?d v)) \<longlongrightarrow> 0 * 0) (at_right 0)"
    by (rule tendsto_mult [OF tendsto_ident_at p])
  then show vp: "((\<lambda>v. v * norm_pdf N (?d v)) \<longlongrightarrow> 0) (at_right 0)"
    by simp
  have "((\<lambda>z. z * norm_pdf N z) \<longlongrightarrow> 0) at_top" "((\<lambda>z. z * norm_pdf N z) \<longlongrightarrow> 0) at_bot"
    using assms(1) by (simp_all add: pdf_tails_def)
  then have dp: "((\<lambda>v. ?d v * norm_pdf N (?d v)) \<longlongrightarrow> 0) (at_right 0)"
    using assms(2,3) by (rule tails_d_limit)
  have "((\<lambda>v. k / L * (?d v * norm_pdf N (?d v) - a * (v * norm_pdf N (?d v))))
          \<longlongrightarrow> k / L * (0 - a * 0)) (at_right 0)"
    by (rule tendsto_mult [OF tendsto_const tendsto_diff [OF dp tendsto_mult [OF tendsto_const vp]]])
  moreover have "\<forall>\<^sub>F v in at_right 0.
      k / L * (?d v * norm_pdf N (?d v) - a * (v * norm_pdf N (?d v))) = norm_pdf N (?d v) / v"
    using eventually_at_right_less
  proof eventually_elim
    case (elim v)
    have "?d v * norm_pdf N (?d v) - a * (v * norm_pdf N (?d v)) = L / (v * k) * norm_pdf N (?d v)"
      by (simp add: algebra_simps)
    with elim assms(2,3) show ?case by simp
  qed
  ultimately show "((\<lambda>v. norm_pdf N (?d v) / v) \<longlongrightarrow> 0) (at_right 0)"
    by (simp add: Lim_transform_eventually)
qed

subsection \<open>The price at zero volatility is the limit of the general branch\<close>

lemma bs_d1_split:
  assumes "v \<noteq> 0" "0 < t"
  shows "(ln (s / x) + (b + (v * v) / 2) * t) / (v * sqrt t)
         = (ln (s / x) + b * t) / (v * sqrt t) + (sqrt t / 2) * v"
proof -
  have "sqrt t * sqrt t = t" using assms(2) by simp
  moreover have "sqrt t \<noteq> 0" using assms(2) by simp
  ultimately show ?thesis
    using assms(1) by (simp add: field_simps)
qed

lemma forward_exp_moneyness:
  fixes s x b r t :: real
  assumes "0 < s" "0 < x"
  shows "s * exp ((b - r) * t) = x * exp (- r * t) * exp (ln (s / x) + b * t)"
proof -
  have "0 < s / x" using assms by simp
  then have "exp (ln (s / x) + b * t) = s / x * exp (b * t)"
    by (simp add: exp_add)
  moreover have "exp ((b - r) * t) = exp (b * t) * exp (- r * t)"
    by (simp add: exp_add [symmetric] algebra_simps)
  ultimately show ?thesis
    using assms by (simp add: field_simps)
qed

lemma bs_closed_form_call_value:
  "bs_value (bs_closed_form N CALL s x t r b v d) =
     s * exp ((b - r) * t) * norm_cdf N d - x * exp (- r * t) * norm_cdf N (d - v * sqrt t)"
  by (simp add: bs_closed_form_def Let_def)

lemma moneyness_limit_value:
  fixes S X L :: real
  assumes "S = X * exp L" "0 < X"
  shows "S * (if 0 < L then 1 else if L < 0 then 0 else 1 / 2)
           - X * (if 0 < L then 1 else if L < 0 then 0 else 1 / 2) = max 0 (S - X)"
proof (cases "0 < L")
  case True
  then have "X \<le> S" using assms by simp
  with True show ?thesis by simp
next
  case False
  then have "exp L \<le> 1" by simp
  then have "S \<le> X" using assms by (simp add: mult_le_cancel_left1)
  moreover have "\<not> L < 0 \<Longrightarrow> S = X" using False assms by simp
  ultimately show ?thesis using False by auto
qed

lemma bs_call_value_limit:
  assumes "cdf_symmetric N" "(norm_cdf N \<longlongrightarrow> 1) at_top" "isCont (norm_cdf N) 0"
    and "0 < t" "0 < s" "0 < x"
  shows "((\<lambda>v. bs_value (bs_closed_form N CALL s x t r b v
                           ((ln (s / x) + (b + (v * v) / 2) * t) / (v * sqrt t))))
           \<longlongrightarrow> max 0 (s * exp ((b - r) * t) - x * exp (- r * t))) (at_right 0)"
proof -
  let ?L = "ln (s / x) + b * t" and ?k = "sqrt t"
  let ?S = "s * exp ((b - r) * t)" and ?X = "x * exp (- r * t)"
  let ?l = "if 0 < ?L then 1 else if ?L < 0 then 0 else 1 / (2::real)"
  have k: "0 < ?k" using assms(4) by simp
  have lim1: "((\<lambda>v. norm_cdf N (?L / (v * ?k) + (?k / 2) * v)) \<longlongrightarrow> ?l) (at_right 0)"
    by (rule cdf_d_limit [OF assms(1-3) k])
  have lim2: "((\<lambda>v. norm_cdf N (?L / (v * ?k) + (- (?k / 2)) * v)) \<longlongrightarrow> ?l) (at_right 0)"
    by (rule cdf_d_limit [OF assms(1-3) k])
  have lim: "((\<lambda>v. ?S * norm_cdf N (?L / (v * ?k) + (?k / 2) * v)
              - ?X * norm_cdf N (?L / (v * ?k) + (- (?k / 2)) * v)) \<longlongrightarrow> ?S * ?l - ?X * ?l) (at_right 0)"
    by (rule tendsto_diff [OF tendsto_mult [OF tendsto_const lim1] tendsto_mult [OF tendsto_const lim2]])
  have ev: "\<forall>\<^sub>F v in at_right 0.
      ?S * norm_cdf N (?L / (v * ?k) + (?k / 2) * v) - ?X * norm_cdf N (?L / (v * ?k) + (- (?k / 2)) * v)
      = bs_value (bs_closed_form N CALL s x t r b v ((ln (s / x) + (b + (v * v) / 2) * t) / (v * sqrt t)))"
    using eventually_at_right_less
  proof eventually_elim
    case (elim v)
    then have "v \<noteq> 0" by simp
    then have d1: "(ln (s / x) + (b + (v * v) / 2) * t) / (v * sqrt t) = ?L / (v * ?k) + (?k / 2) * v"
      using assms(4) by (rule bs_d1_split)
    have d2: "?L / (v * ?k) + (?k / 2) * v - v * ?k = ?L / (v * ?k) + (- (?k / 2)) * v"
      by (simp add: algebra_simps)
    show ?case
      by (simp only: bs_closed_form_call_value d1 d2)
  qed
  have eq: "?S * ?l - ?X * ?l = max 0 (?S - ?X)"
    using forward_exp_moneyness [OF assms(5,6)] assms(6)
    by (intro moneyness_limit_value) simp_all
  from lim ev have "((\<lambda>v. bs_value (bs_closed_form N CALL s x t r b v
                           ((ln (s / x) + (b + (v * v) / 2) * t) / (v * sqrt t))))
           \<longlongrightarrow> ?S * ?l - ?X * ?l) (at_right 0)"
    by (rule Lim_transform_eventually)
  then show ?thesis by (simp only: eq)
qed

subsection \<open>The general branch near zero volatility\<close>

lemma bs_known_eventually:
  assumes "0 < t" "0 < s" "0 < x"
  shows "\<forall>\<^sub>F v in at_right 0. calculate_black_scholes N (Known ot) s x t r b v =
           Inr (bs_closed_form N ot s x t r b v ((ln (s / x) + (b + (v * v) / 2) * t) / (v * sqrt t)))"
  using eventually_at_right_less
proof eventually_elim
  case (elim v)
  then show ?case
    using assms by (simp add: calculate_black_scholes_general bs_general_ok)
qed

lemma bs_closed_form_delta:
  "delta (bs_closed_form N ot s x t r b v d) =
     option_value ot * exp ((b - r) * t) * norm_cdf N (option_value ot * d)"
  by (cases ot) (simp_all add: bs_closed_form_def Let_def)

lemma atm_forward_discounted:
  fixes s x b r t :: real
  assumes "s * exp (b * t) = x"
  shows "s * exp ((- r + b) * t) = x * exp (- r * t)"
proof -
  have "exp ((- r + b) * t) = exp (b * t) * exp (- r * t)"
    by (simp add: exp_add [symmetric] algebra_simps)
  then show ?thesis
    using assms by simp
qed

lemma atm_log_moneyness:
  fixes s x b t :: real
  assumes "0 < s" "s * exp (b * t) = x"
  shows "ln (s / x) + b * t = 0"
proof -
  have "x \<noteq> 0"
    using assms by (auto simp: mult_pos_pos)
  then have "s / x = exp (- (b * t))"
    using assms by (simp add: exp_minus field_simps)
  then show ?thesis by simp
qed

subsection \<open>Continuity of the price and the jump of the delta\<close>

text \<open>C22: the vanilla price is continuous at zero volatility: for positive spot, strike
  and time, the price returned for \<open>v > 0\<close> tends, as \<open>v \<rightarrow> 0+\<close>, to the price the
  degenerate branch returns at \<open>v = 0\<close>, for calls and puts alike.\<close>

theorem bs_zero_vol_limit:
  assumes "cdf_symmetric N" "(norm_cdf N \<longlongrightarrow> 1) at_top" "isCont (norm_cdf N) 0"
    and "0 < t" "0 < s" "0 < x"
  shows "((\<lambda>v. bs_value (projr (calculate_black_scholes N (Known ot) s x t r b v)))
           \<longlongrightarrow> bs_value (projr (calculate_black_scholes N (Known ot) s x t r b 0))) (at_right 0)"
proof -
  let ?d = "\<lambda>v. (ln (s / x) + (b + (v * v) / 2) * t) / (v * sqrt t)"
  let ?F = "s * exp ((b - r) * t) - x * exp (- r * t)"
  have call: "((\<lambda>v. bs_value (bs_closed_form N CALL s x t r b v (?d v))) \<longlongrightarrow> max 0 ?F) (at_right 0)"
    by (rule bs_call_value_limit [OF assms])
  have lim: "((\<lambda>v. bs_value (bs_closed_form N ot s x t r b v (?d v)))
               \<longlongrightarrow> max 0 (option_value ot * ?F)) (at_right 0)"
  proof (cases ot)
    case CALL
    then show ?thesis using call by simp
  next
    case PUT
    have "((\<lambda>v. bs_value (bs_closed_form N CALL s x t r b v (?d v)) - ?F) \<longlongrightarrow> max 0 ?F - ?F) (at_right 0)"
      using call by (rule tendsto_diff [OF _ tendsto_const])
    moreover have "max 0 ?F - ?F = max 0 (- ?F)"
      by (simp add: max_def)
    ultimately show ?thesis
      using PUT by (simp add: bs_closed_form_value_parity [OF assms(1)])
  qed
  have "\<forall>\<^sub>F v in at_right 0. bs_value (bs_closed_form N ot s x t r b v (?d v)) =
          bs_value (projr (calculate_black_scholes N (Known ot) s x t r b v))"
    using bs_known_eventually [OF assms(4-6), of N ot r b] by (rule eventually_mono) simp
  with lim have "((\<lambda>v. bs_value (projr (calculate_black_scholes N (Known ot) s x t r b v)))
                   \<longlongrightarrow> max 0 (option_value ot * ?F)) (at_right 0)"
    by (rule Lim_transform_eventually)
  moreover have "bs_value (projr (calculate_black_scholes N (Known ot) s x t r b 0)) =
                   max 0 (option_value ot * ?F)"
    by (simp add: calculate_black_scholes_degenerate bs_degenerate_value)
  ultimately show ?thesis by simp
qed

theorem bs_zero_vol_limit_witness:
  "cdf_symmetric logistic_dist \<and> (norm_cdf logistic_dist \<longlongrightarrow> 1) at_top \<and>
   isCont (norm_cdf logistic_dist) 0 \<and> (0::real) < 1 \<and>
   ((\<lambda>v. bs_value (projr (calculate_black_scholes logistic_dist (Known PUT) 1 1 1 0 0 v)))
      \<longlongrightarrow> bs_value (projr (calculate_black_scholes logistic_dist (Known PUT) 1 1 1 0 0 0))) (at_right 0)"
  using bs_zero_vol_limit [OF logistic_symmetric logistic_tendsto_top logistic_isCont,
      where t = 1 and s = 1 and x = 1 and ot = PUT and r = 0 and b = 0]
  by (simp add: logistic_symmetric logistic_tendsto_top logistic_isCont)

text \<open>C23: at the money forward (\<open>s e^(bt) = x\<close>) the delta is discontinuous at zero
  volatility: as \<open>v \<rightarrow> 0+\<close> the delta of the general branch tends to
  \<open>\<plusminus>e^((b-r)t) / 2\<close> (sign of the option type), while the degenerate branch returns
  delta 0 at \<open>v = 0\<close>.\<close>

theorem bs_atm_delta_jump:
  assumes "cdf_symmetric N" "isCont (norm_cdf N) 0"
    and "0 < t" "0 < s" "0 < x" "s * exp (b * t) = x"
  shows "((\<lambda>v. delta (projr (calculate_black_scholes N (Known ot) s x t r b v)))
            \<longlongrightarrow> option_value ot * exp ((b - r) * t) / 2) (at_right 0)
         \<and> delta (projr (calculate_black_scholes N (Known ot) s x t r b 0)) = 0"
proof
  let ?c = "option_value ot * exp ((b - r) * t)"
  let ?a = "option_value ot * (sqrt t / 2)"
  have L: "ln (s / x) + b * t = 0"
    using assms(4,6) by (rule atm_log_moneyness)
  have "((\<lambda>v. norm_cdf N (?a * v)) \<longlongrightarrow> 1 / 2) (at_right 0)"
    by (rule cdf_d_limit_zero [OF assms(1,2)])
  then have lim: "((\<lambda>v. ?c * norm_cdf N (?a * v)) \<longlongrightarrow> ?c * (1 / 2)) (at_right 0)"
    by (rule tendsto_mult [OF tendsto_const])
  have "\<forall>\<^sub>F v in at_right 0. ?c * norm_cdf N (?a * v) =
          delta (projr (calculate_black_scholes N (Known ot) s x t r b v))"
    using bs_known_eventually [OF assms(3-5), of N ot r b] eventually_at_right_less
  proof eventually_elim
    case (elim v)
    then have "(ln (s / x) + (b + (v * v) / 2) * t) / (v * sqrt t) = sqrt t / 2 * v"
      using bs_d1_split [of v t] assms(3) L by simp
    with elim show ?case
      by (simp add: bs_closed_form_delta mult.assoc)
  qed
  with lim show "((\<lambda>v. delta (projr (calculate_black_scholes N (Known ot) s x t r b v)))
            \<longlongrightarrow> ?c / 2) (at_right 0)"
    by (simp add: Lim_transform_eventually)
  show "delta (projr (calculate_black_scholes N (Known ot) s x t r b 0)) = 0"
    using atm_forward_discounted [OF assms(6), of r]
    by (simp add: calculate_black_scholes_degenerate bs_degenerate_def Let_def)
qed

theorem bs_atm_delta_jump_witness:
  "cdf_symmetric logistic_dist \<and> isCont (norm_cdf logistic_dist) 0 \<and> (0::real) < 1 \<and>
   1 * exp (0 * 1) = (1::real) \<and>
   ((\<lambda>v. delta (projr (calculate_black_scholes logistic_dist (Known CALL) 1 1 1 0 0 v)))
      \<longlongrightarrow> option_value CALL * exp ((0 - 0) * 1) / 2) (at_right 0) \<and>
   delta (projr (calculate_black_scholes logistic_dist (Known CALL) 1 1 1 0 0 0)) = 0"
  using bs_atm_delta_jump [OF logistic_symmetric logistic_isCont,
      where t = 1 and s = 1 and x = 1 and ot = CALL and r = 0 and b = 0]
  by (simp add: logistic_symmetric logistic_isCont)

subsection \<open>The Greeks away from the money\<close>

lemma bs_closed_form_greeks:
  "gamma (bs_closed_form N ot s x t r b v d) =
     exp ((b - r) * t) * norm_pdf N d / (s * v * sqrt t)"
  "vega (bs_closed_form N ot s x t r b v d) = exp ((b - r) * t) * s * sqrt t * norm_pdf N d"
  "rho (bs_closed_form N ot s x t r b v d) =
     option_value ot * x * t * exp (- r * t) * norm_cdf N (option_value ot * (d - v * sqrt t))"
  "theta (bs_closed_form N ot s x t r b v d) =
     - (s * v * exp ((b - r) * t) * norm_pdf N d) / (2 * sqrt t)
     - option_value ot * ((b - r) * s * exp ((b - r) * t) * norm_cdf N (option_value ot * d)
         + r * x * exp (- r * t) * norm_cdf N (option_value ot * (d - v * sqrt t)))"
  by (cases ot; simp add: bs_closed_form_def Let_def right_diff_distrib distrib_left)+

lemma off_money_log:
  fixes s x b t :: real
  assumes "0 < s" "0 < x" "s * exp (b * t) \<noteq> x"
  shows "ln (s / x) + b * t \<noteq> 0"
proof
  assume h: "ln (s / x) + b * t = 0"
  have "exp (ln (s / x)) = s / x" using assms(1,2) by simp
  moreover have "ln (s / x) = - (b * t)" using h by linarith
  ultimately have "s / x = exp (- (b * t))" by simp
  then have "s = x * exp (- (b * t))" using assms(2) by (simp add: divide_eq_eq)
  then have "s * exp (b * t) = x * (exp (- (b * t)) * exp (b * t))" by simp
  moreover have "exp (- (b * t)) * exp (b * t) = 1" by (simp add: exp_minus)
  ultimately show False using assms(3) by simp
qed

lemma bs_degenerate_pos_iff:
  fixes s x b r t :: real
  assumes "0 < s" "0 < x"
  shows "0 < max 0 (option_value ot * (s * exp ((- r + b) * t) - x * exp (- r * t))) \<longleftrightarrow>
         0 < option_value ot * (ln (s / x) + b * t)"
proof -
  let ?L = "ln (s / x) + b * t" and ?X = "x * exp (- r * t)"
  have "s * exp ((- r + b) * t) = ?X * exp ?L"
    using forward_exp_moneyness [OF assms, of b r t] by (simp add: add.commute)
  then have eq: "s * exp ((- r + b) * t) - ?X = ?X * (exp ?L - 1)"
    by (simp add: algebra_simps)
  have X: "0 < ?X" using assms(2) by simp
  have pos: "0 < ?X * y \<longleftrightarrow> 0 < y" for y
    using mult_less_cancel_left_pos [OF X, of 0 y] by simp
  have m: "0 < max 0 y \<longleftrightarrow> 0 < y" for y :: real
    by (simp add: less_max_iff_disj)
  have c: "0 < ?X * (exp ?L - 1) \<longleftrightarrow> 0 < ?L"
    by (simp only: pos) simp
  have p: "0 < - (?X * (exp ?L - 1)) \<longleftrightarrow> 0 < - ?L"
  proof -
    have "- (?X * (exp ?L - 1)) = ?X * (1 - exp ?L)" by (simp add: algebra_simps)
    moreover have "0 < ?X * (1 - exp ?L) \<longleftrightarrow> ?L < 0"
      by (simp only: pos) simp
    ultimately show ?thesis by linarith
  qed
  show ?thesis
    by (cases ot) (simp_all only: option_value.simps mult_1_left mult_minus1 eq m c p)
qed

lemma bs_degenerate_greeks_off:
  fixes s x b r t :: real and ot :: OptionType
  assumes "0 < s" "0 < x"
  defines "I \<equiv> if 0 < option_value ot * (ln (s / x) + b * t) then 1 else (0::real)"
  shows "delta (bs_degenerate ot s x t r b) = option_value ot * exp ((b - r) * t) * I"
    and "rho (bs_degenerate ot s x t r b) = option_value ot * x * t * exp (- r * t) * I"
    and "theta (bs_degenerate ot s x t r b) =
           - option_value ot * ((b - r) * s * exp ((b - r) * t) * I + r * x * exp (- r * t) * I)"
proof -
  note P = bs_degenerate_pos_iff [OF assms(1,2), of ot r b t]
  show "delta (bs_degenerate ot s x t r b) = option_value ot * exp ((b - r) * t) * I"
    using P by (simp add: I_def bs_degenerate_def Let_def)
  show "rho (bs_degenerate ot s x t r b) = option_value ot * x * t * exp (- r * t) * I"
    using P by (simp add: I_def bs_degenerate_def Let_def)
  show "theta (bs_degenerate ot s x t r b) =
           - option_value ot * ((b - r) * s * exp ((b - r) * t) * I + r * x * exp (- r * t) * I)"
    using P by (simp add: I_def bs_degenerate_def Let_def distrib_left right_diff_distrib)
qed

lemma bs_greek_limit_transfer:
  assumes "0 < t" "0 < s" "0 < x"
    and "((\<lambda>v. f (bs_closed_form N ot s x t r b v
                    ((ln (s / x) + b * t) / (v * sqrt t) + (sqrt t / 2) * v)))
           \<longlongrightarrow> f (bs_degenerate ot s x t r b)) (at_right 0)"
  shows "((\<lambda>v. f (projr (calculate_black_scholes N (Known ot) s x t r b v)))
           \<longlongrightarrow> f (projr (calculate_black_scholes N (Known ot) s x t r b 0))) (at_right 0)"
proof -
  have "\<forall>\<^sub>F v in at_right 0.
          f (bs_closed_form N ot s x t r b v ((ln (s / x) + b * t) / (v * sqrt t) + (sqrt t / 2) * v))
          = f (projr (calculate_black_scholes N (Known ot) s x t r b v))"
    using bs_known_eventually [OF assms(1-3), of N ot r b] eventually_at_right_less
  proof eventually_elim
    case (elim v)
    then show ?case using bs_d1_split [of v t] assms(1) by simp
  qed
  with assms(4) show ?thesis
    by (simp add: Lim_transform_eventually calculate_black_scholes_degenerate)
qed

lemma bs_cdf_greek_limits:
  fixes ot :: OptionType and L t :: real
  assumes "cdf_symmetric N" "(norm_cdf N \<longlongrightarrow> 1) at_top" "0 < t" "L \<noteq> 0"
  defines "I \<equiv> if 0 < option_value ot * L then 1 else (0::real)"
  shows "((\<lambda>v. norm_cdf N (option_value ot * (L / (v * sqrt t) + (sqrt t / 2) * v)))
           \<longlongrightarrow> I) (at_right 0)"
    and "((\<lambda>v. norm_cdf N (option_value ot * (L / (v * sqrt t) + (sqrt t / 2) * v - v * sqrt t)))
           \<longlongrightarrow> I) (at_right 0)"
proof -
  have k: "0 < sqrt t" using assms(3) by simp
  have cL: "option_value ot * L \<noteq> 0" using assms(4) by (cases ot) simp_all
  show "((\<lambda>v. norm_cdf N (option_value ot * (L / (v * sqrt t) + (sqrt t / 2) * v)))
           \<longlongrightarrow> I) (at_right 0)"
    unfolding I_def by (rule cdf_scaled_d_limit [OF assms(1,2) k cL])
  have "sqrt t / 2 * v - v * sqrt t = - (sqrt t / 2) * v" for v by simp
  then have eq: "(\<lambda>v. norm_cdf N (option_value ot * (L / (v * sqrt t) + (sqrt t / 2) * v - v * sqrt t)))
      = (\<lambda>v. norm_cdf N (option_value ot * (L / (v * sqrt t) + (- (sqrt t / 2)) * v)))"
    by (simp add: add_diff_eq [symmetric] mult.commute)
  show "((\<lambda>v. norm_cdf N (option_value ot * (L / (v * sqrt t) + (sqrt t / 2) * v - v * sqrt t)))
           \<longlongrightarrow> I) (at_right 0)"
    unfolding eq I_def by (rule cdf_scaled_d_limit [OF assms(1,2) k cL])
qed

text \<open>C25: away from the money forward (\<open>s e^(bt) \<noteq> x\<close>) every Greek is continuous
  at zero volatility: as \<open>v \<rightarrow> 0+\<close> the delta, gamma, theta, vega and rho of the general
  branch tend to those the degenerate branch returns at \<open>v = 0\<close>.  This is the
  property the repository's test \<open>test_zero_volatility_is_same_as_small_vol_price\<close>
  samples at \<open>v = 1e-20\<close> for spot/strike 100/120 and 120/100.  The evaluator is
  assumed symmetric, with limit 1 at \<open>+\<infinity>\<close> and density tails \<open>z \<phi>(z) \<rightarrow> 0\<close>.\<close>

theorem bs_zero_vol_greeks_limit:
  assumes "cdf_symmetric N" "(norm_cdf N \<longlongrightarrow> 1) at_top" "pdf_tails N"
    and "0 < t" "0 < s" "0 < x" "s * exp (b * t) \<noteq> x"
  shows "((\<lambda>v. delta (projr (calculate_black_scholes N (Known ot) s x t r b v)))
            \<longlongrightarrow> delta (projr (calculate_black_scholes N (Known ot) s x t r b 0))) (at_right 0) \<and>
         ((\<lambda>v. gamma (projr (calculate_black_scholes N (Known ot) s x t r b v)))
            \<longlongrightarrow> gamma (projr (calculate_black_scholes N (Known ot) s x t r b 0))) (at_right 0) \<and>
         ((\<lambda>v. theta (projr (calculate_black_scholes N (Known ot) s x t r b v)))
            \<longlongrightarrow> theta (projr (calculate_black_scholes N (Known ot) s x t r b 0))) (at_right 0) \<and>
         ((\<lambda>v. vega (projr (calculate_black_scholes N (Known ot) s x t r b v)))
            \<longlongrightarrow> vega (projr (calculate_black_scholes N (Known ot) s x t r b 0))) (at_right 0) \<and>
         ((\<lambda>v. rho (projr (calculate_black_scholes N (Known ot) s x t r b v)))
            \<longlongrightarrow> rho (projr (calculate_black_scholes N (Known ot) s x t r b 0))) (at_right 0)"
proof -
  let ?L = "ln (s / x) + b * t"
  let ?d = "\<lambda>v. ?L / (v * sqrt t) + (sqrt t / 2) * v"
  let ?e = "exp ((b - r) * t)"
  define I where "I = (if 0 < option_value ot * ?L then 1 else (0::real))"
  have L: "?L \<noteq> 0" by (rule off_money_log [OF assms(5-7)])
  have k: "0 < sqrt t" using assms(4) by simp
  note C = bs_cdf_greek_limits [OF assms(1,2,4) L, of ot, folded I_def]
  note P = pdf_d_limits [OF assms(3) L k, of "sqrt t / 2"]
  note D = bs_degenerate_greeks_off [OF assms(5,6), where ot = ot and b = b and r = r and t = t,
      folded I_def]
  have delta: "((\<lambda>v. delta (bs_closed_form N ot s x t r b v (?d v)))
                 \<longlongrightarrow> delta (bs_degenerate ot s x t r b)) (at_right 0)"
    unfolding bs_closed_form_delta D(1) by (rule tendsto_mult [OF tendsto_const C(1)])
  have eq: "(\<lambda>v. ?e * norm_pdf N (?d v) / (s * v * sqrt t))
            = (\<lambda>v. ?e / (s * sqrt t) * (norm_pdf N (?d v) / v))"
    by (rule ext) (simp add: times_divide_times_eq ac_simps)
  have "((\<lambda>v. ?e / (s * sqrt t) * (norm_pdf N (?d v) / v)) \<longlongrightarrow> ?e / (s * sqrt t) * 0) (at_right 0)"
    by (rule tendsto_mult [OF tendsto_const P(3)])
  then have gamma: "((\<lambda>v. gamma (bs_closed_form N ot s x t r b v (?d v)))
                 \<longlongrightarrow> gamma (bs_degenerate ot s x t r b)) (at_right 0)"
    unfolding bs_closed_form_greeks(1) bs_degenerate_flat eq by simp
  have e1: "(\<lambda>v. - (s * v * ?e * norm_pdf N (?d v)) / (2 * sqrt t))
        = (\<lambda>v. (- (s * ?e)) * (v * norm_pdf N (?d v)) / (2 * sqrt t))"
    by (rule ext) (simp add: mult.commute mult.left_commute)
  have T1: "((\<lambda>v. - (s * v * ?e * norm_pdf N (?d v)) / (2 * sqrt t)) \<longlongrightarrow> 0) (at_right 0)"
    unfolding e1 by (rule tendsto_divide_zero [OF tendsto_mult_right_zero [OF P(2)]])
  have theta: "((\<lambda>v. theta (bs_closed_form N ot s x t r b v (?d v)))
                 \<longlongrightarrow> theta (bs_degenerate ot s x t r b)) (at_right 0)"
    unfolding bs_closed_form_greeks(4) D(3)
    using tendsto_diff [OF T1 tendsto_mult [OF tendsto_const
            tendsto_add [OF tendsto_mult [OF tendsto_const C(1)] tendsto_mult [OF tendsto_const C(2)]]]]
    by simp
  have vega: "((\<lambda>v. vega (bs_closed_form N ot s x t r b v (?d v)))
                 \<longlongrightarrow> vega (bs_degenerate ot s x t r b)) (at_right 0)"
    unfolding bs_closed_form_greeks(2) bs_degenerate_flat
    by (rule tendsto_mult_right_zero [OF P(1)])
  have rho: "((\<lambda>v. rho (bs_closed_form N ot s x t r b v (?d v)))
                 \<longlongrightarrow> rho (bs_degenerate ot s x t r b)) (at_right 0)"
    unfolding bs_closed_form_greeks(3) D(2) by (rule tendsto_mult [OF tendsto_const C(2)])
  show ?thesis
    by (intro conjI bs_greek_limit_transfer [OF assms(4-6) delta]
          bs_greek_limit_transfer [OF assms(4-6) gamma] bs_greek_limit_transfer [OF assms(4-6) theta]
          bs_greek_limit_transfer [OF assms(4-6) vega] bs_greek_limit_transfer [OF assms(4-6) rho])
qed

theorem bs_zero_vol_greeks_limit_witness:
  "cdf_symmetric logistic_dist \<and> (norm_cdf logistic_dist \<longlongrightarrow> 1) at_top \<and>
   pdf_tails logistic_dist \<and> (0::real) < 1 \<and> (0::real) < 100 \<and> (0::real) < 120 \<and>
   100 * exp (0 * 1) \<noteq> (120::real) \<and>
   ((\<lambda>v. delta (projr (calculate_black_scholes logistic_dist (Known PUT) 100 120 1 0 0 v)))
      \<longlongrightarrow> delta (projr (calculate_black_scholes logistic_dist (Known PUT) 100 120 1 0 0 0))) (at_right 0) \<and>
   ((\<lambda>v. gamma (projr (calculate_black_scholes logistic_dist (Known PUT) 100 120 1 0 0 v)))
      \<longlongrightarrow> gamma (projr (calculate_black_scholes logistic_dist (Known PUT) 100 120 1 0 0 0))) (at_right 0) \<and>
   ((\<lambda>v. theta (projr (calculate_black_scholes logistic_dist (Known PUT) 100 120 1 0 0 v)))
      \<longlongrightarrow> theta (projr (calculate_black_scholes logistic_dist (Known PUT) 100 120 1 0 0 0))) (at_right 0) \<and>
   ((\<lambda>v. vega (projr (calculate_black_scholes logistic_dist (Known PUT) 100 120 1 0 0 v)))
      \<longlongrightarrow> vega (projr (calculate_black_scholes logistic_dist (Known PUT) 100 120 1 0 0 0))) (at_right 0) \<and>
   ((\<lambda>v. rho (projr (calculate_black_scholes logistic_dist (Known PUT) 100 120 1 0 0 v)))
      \<longlongrightarrow> rho (projr (calculate_black_scholes logistic_dist (Known PUT) 100 120 1 0 0 0))) (at_right 0)"
proof -
  have "100 * exp (0 * 1) \<noteq> (120::real)" by simp
  with bs_zero_vol_greeks_limit [OF logistic_symmetric logistic_tendsto_top logistic_pdf_tails,
      where t = 1 and s = 100 and x = 120 and ot = PUT and r = 0 and b = 0]
  show ?thesis
    by (simp only: logistic_symmetric logistic_tendsto_top logistic_pdf_tails simp_thms
          zero_less_one zero_less_numeral)
qed

end
