(* ===== verification/Spec2Isabelle.thy ===== *)
theory Spec2Isabelle
  imports AsianOptions ZeroVolLimit
begin

text \<open>
  \<^bold>\<open>A verified model of the option pricing scripts.\<close>

  The repository prices European options and average-price (Asian) options on
  futures in closed form.  Three source files interact:
  \<^item> \<open>src/src/helpers.py\<close> turns day counts into year fractions
    (\<open>time_to_maturity\<close>, \<open>averaging_period\<close>), modelled in theory
    \<open>Helpers\<close>; dates are \<^typ>\<open>int\<close> day ordinals.
  \<^item> \<open>src/src/black_scholes.py\<close>, \<open>calculate_black_scholes\<close>, the generalised
    Black-Scholes-Merton pricer with its five Greeks, modelled in theory
    \<open>BlackScholes\<close>: the result dataclass is the record \<open>BSResult\<close>
    (the field \<open>value\<close> is called \<open>bs_value\<close>), the degenerate branch
    (\<open>t \<le> 0\<close> or \<open>v = 0\<close>) is \<open>bs_degenerate\<close>, the computation of \<open>d1\<close>
    is \<open>bs_d1\<close>, the CALL/PUT closed forms are \<open>bs_closed_form\<close>, the general
    branch is \<open>bs_general\<close>.
  \<^item> \<open>src/src/asian_options.py\<close>, the Turnbull-Wakeman approximation, modelled in
    theory \<open>AsianOptions\<close>: \<open>floating_ratio\<close>, \<open>get_swap\<close>, \<open>tw_m\<close>,
    \<open>tw_sigmaA\<close> one definition each; \<open>turnbull_wakeman\<close> is the whole function,
    written with \<open>tw_vol\<close> (its lines computing \<open>T_end\<close>, \<open>T_start\<close>, \<open>m\<close>
    and \<open>v_asian\<close>) and \<open>tw_adjust\<close> (the regime block that chooses the swap,
    \<open>X_HAT\<close> and the multiplier), and it calls \<open>calculate_black_scholes\<close> with
    zero cost of carry exactly as the source does.
  The option type (\<open>enums.py\<close>, not among the sources) is modelled from the
  specification in theory \<open>Enums\<close>; \<open>OptArg\<close> represents any Python value passed
  as \<open>option_type\<close>, so that the pricer's guard is a real branch.  SciPy's
  \<open>norm\<close> is an external library: theory \<open>NormalDist\<close> takes it as a parameter
  (a record of CDF and PDF) and the theorems assume only what they use, the symmetry
  \<open>cdf_symmetric\<close>; the logistic law instantiates it in the witnesses.

  Python floats are real numbers (no rounding, overflow or underflow); every
  exception is an \<open>Inl\<close> value of \<^typ>\<open>py_error\<close> (theory \<open>Prelude\<close>, with checked
  versions of \<open>/\<close>, \<open>math.log\<close> and \<open>math.sqrt\<close>).  The code has no loops,
  so no fuel or termination argument is needed: every definition is total and
  non-recursive.  The default argument \<open>r = 0\<close> of \<open>turnbull_wakeman\<close> is
  the caller passing \<open>0\<close>; the unused \<open>TWResult\<close> dataclass and the pytest
  files are not modelled.

  What is proved (claim ids C1..C27):
  \<^item> parity: vanilla (C1) and Asian (C2) put-call parity on every input, errors
    included; Greek parity in the general branch (C11) and its failure at the money
    in the degenerate branch (C12);
  \<^item> regimes of the Asian pricer: finished (C3), in progress (C19), not started
    (C20), and the in-progress fallback that still prices with positive volatility
    (C21); the in-progress adjustment falls back exactly when the strike is at most
    the realised part of the average (C18);
  \<^item> the moment matching: \<open>exp (sigma^2 min T tau) \<le> m \<le> exp (sigma^2 max T tau)\<close>
    (C4), hence the volatility step never raises (C5) and, on a well-formed window,
    \<open>|sigma| sqrt (T_start/T_end) \<le> v_asian \<le> |sigma|\<close> (C6); the bounds rest on
    inequalities of \<open>exp\<close> proved in \<open>Prelude\<close> from the sign of derivatives;
  \<^item> errors: exactly when the vanilla pricer raises (C8), and that the Asian pricer
    never raises for positive prices (C7);
  \<^item> the identity \<open>vega = s^2 v t gamma\<close> on every result of the vanilla pricer (C13);
  \<^item> signs and bounds of every result for \<open>s, x > 0\<close>, \<open>t, v \<ge> 0\<close> (C24): the
    delta has the option's sign and magnitude at most \<open>e^((b-r)t)\<close>, gamma, vega and
    the signed rho are non-negative, the value is at most the discounted forward
    (call) or strike (put); this assumes \<open>0 \<le> \<Phi> \<le> 1\<close> and \<open>\<phi> \<ge> 0\<close>
    (\<open>norm_bounded\<close>);
  \<^item> inputs the code accepts but the specification excludes: on an inverted averaging
    window the effective volatility strictly exceeds the bullet volatility (C26); a
    negative volatility is priced by the general branch as minus the price of the
    opposite option type (C27);
  \<^item> the degenerate branch at expiry (C9), type independence of gamma and vega (C10),
    and the open ratio and swap: bounds (C14), monotonicity (C15), the single formula
    \<open>(ed - pd + 1) / (ed - sd + 1)\<close> its three branches share (C16),
    convex combination (C17).
  \<^item> the zero-volatility boundary (theory \<open>ZeroVolLimit\<close>): as \<open>v \<rightarrow> 0+\<close> the
    price of the general branch tends to the price of the degenerate branch (C22),
    while at the money forward the delta tends to \<open>\<plusminus>e^((b-r)t)/2\<close> and the
    degenerate branch returns 0 (C23); away from the money all five Greeks of the
    general branch tend to those of the degenerate branch (C25), the property the
    test \<open>test_zero_volatility_is_same_as_small_vol_price\<close> samples.  These limits
    assume of the evaluator only symmetry, continuity at 0, limit 1 at \<open>+\<infinity>\<close> and
    density tails \<open>z \<phi>(z) \<rightarrow> 0\<close>, all true of \<open>norm\<close>.
  Not yet modelled: the Greeks as derivatives of the price, which need the Gaussian
  density itself rather than an abstract evaluator.
\<close>

lemma tw_vol_Inr: "\<exists>v. tw_vol pd sd ed sigma = Inr v"
  by (simp add: tw_vol_eq)

lemma turnbull_wakeman_unfold:
  assumes "tw_vol pd sd ed sigma = Inr v"
    and "tw_adjust pd sd ed (get_swap forward realized pd sd ed) forward realized strike
           (averaging_period sd ed) (min (averaging_period sd ed) (averaging_period pd ed))
         = (swap', X_HAT, mu)"
  shows "turnbull_wakeman N ot pd sd ed sigma forward realized strike r =
         map_sum id (\<lambda>res. bs_value res * mu)
           (calculate_black_scholes N ot swap' X_HAT (time_to_maturity pd ed) r 0 v)"
  using assms by (simp add: turnbull_wakeman_def Let_def sum_bind_Inr_map)

text \<open>C2: put-call parity of the Asian pricer: the call is worth the put plus the
  discounted payoff \<open>(swap - strike) e^(-r T_end)\<close> of the blended swap
  \<open>get_swap\<close>, in every averaging regime, and the two raise together.\<close>

theorem asian_put_call_parity:
  assumes "cdf_symmetric N"
  shows "turnbull_wakeman N (Known CALL) pd sd ed sigma forward realized strike r =
         map_sum id (\<lambda>p. p + (get_swap forward realized pd sd ed - strike)
                                 * exp (- r * time_to_maturity pd ed))
           (turnbull_wakeman N (Known PUT) pd sd ed sigma forward realized strike r)"
proof -
  obtain v where v: "tw_vol pd sd ed sigma = Inr v"
    using tw_vol_Inr by blast
  obtain swap' X_HAT mu where adj:
    "tw_adjust pd sd ed (get_swap forward realized pd sd ed) forward realized strike
       (averaging_period sd ed) (min (averaging_period sd ed) (averaging_period pd ed))
     = (swap', X_HAT, mu)"
    by (metis prod_cases3)
  let ?T = "time_to_maturity pd ed"
  have payoff: "mu * (swap' - X_HAT) = get_swap forward realized pd sd ed - strike"
    by (rule tw_adjust_payoff [OF adj])
  have fwd: "mu * (swap' * exp ((0 - r) * ?T) - X_HAT * exp (- r * ?T))
             = (get_swap forward realized pd sd ed - strike) * exp (- r * ?T)"
    using payoff by (simp add: algebra_simps flip: payoff)
  show ?thesis
    using bs_scaled_parity [OF assms, of mu swap' X_HAT ?T r 0 v] fwd
    by (cases "calculate_black_scholes N (Known PUT) swap' X_HAT ?T r 0 v")
       (simp_all add: turnbull_wakeman_unfold [OF v adj])
qed

theorem asian_put_call_parity_witness:
  "cdf_symmetric logistic_dist \<and>
   turnbull_wakeman logistic_dist (Known CALL) 10 1 28 (3/10) 2300 2200 2250 (1/100) =
   map_sum id (\<lambda>p. p + (get_swap 2300 2200 10 1 28 - 2250) * exp (- (1/100) * time_to_maturity 10 28))
     (turnbull_wakeman logistic_dist (Known PUT) 10 1 28 (3/10) 2300 2200 2250 (1/100))"
  by (intro conjI logistic_symmetric asian_put_call_parity)

text \<open>C3: once the averaging period is over (\<open>pd \<ge> ed\<close>) the Asian price never
  raises and is the discounted intrinsic value of the blended swap against the
  strike, with multiplier 1.\<close>

theorem asian_finished_regime:
  assumes "ed \<le> pd"
  shows "turnbull_wakeman N (Known ot) pd sd ed sigma forward realized strike r =
         Inr (max 0 (option_value ot * (get_swap forward realized pd sd ed - strike))
              * exp (- r * time_to_maturity pd ed))"
proof -
  let ?T = "time_to_maturity pd ed" and ?swap = "get_swap forward realized pd sd ed"
  have v: "tw_vol pd sd ed sigma = Inr 0"
    using assms by (simp add: tw_vol_eq)
  have adj: "tw_adjust pd sd ed ?swap forward realized strike
               (averaging_period sd ed) (min (averaging_period sd ed) (averaging_period pd ed))
             = (?swap, strike, 1)"
    using assms by (rule tw_adjust_finished)
  have val: "bs_value (bs_degenerate ot ?swap strike ?T r 0)
             = max 0 (option_value ot * (?swap - strike)) * exp (- r * ?T)"
  proof -
    have "option_value ot * (?swap * exp ((0 - r) * ?T) - strike * exp (- r * ?T))
          = (option_value ot * (?swap - strike)) * exp (- r * ?T)"
      by (simp add: algebra_simps)
    then show ?thesis
      by (simp only: bs_degenerate_value max_zero_mult_pos exp_gt_zero)
  qed
  have "?T \<le> 0" using assms by simp
  then show ?thesis
    by (simp add: turnbull_wakeman_unfold [OF v adj] calculate_black_scholes_degenerate val)
qed

theorem asian_finished_regime_witness:
  "(28::int) \<le> 30 \<and>
   turnbull_wakeman logistic_dist (Known CALL) 30 1 28 (3/10) 2300 2200 2250 (1/100) =
   Inr (max 0 (option_value CALL * (get_swap 2300 2200 30 1 28 - 2250))
        * exp (- (1/100) * time_to_maturity 30 28))"
  using asian_finished_regime [of 28 30] by simp

text \<open>C7: with a positive forward, a non-negative realised average and a positive
  strike, the Asian pricer never raises, whatever the dates (inverted averaging
  windows included) and the volatility.\<close>

theorem asian_no_error:
  assumes "0 < forward" "0 \<le> realized" "0 < strike"
  shows "\<exists>p. turnbull_wakeman N (Known ot) pd sd ed sigma forward realized strike r = Inr p"
proof -
  obtain v where v: "tw_vol pd sd ed sigma = Inr v"
    using tw_vol_Inr by blast
  obtain swap' X_HAT mu where adj:
    "tw_adjust pd sd ed (get_swap forward realized pd sd ed) forward realized strike
       (averaging_period sd ed) (min (averaging_period sd ed) (averaging_period pd ed))
     = (swap', X_HAT, mu)"
    by (metis prod_cases3)
  have "\<exists>res. calculate_black_scholes N (Known ot) swap' X_HAT (time_to_maturity pd ed) r 0 v = Inr res"
  proof (cases "ed \<le> pd")
    case True
    then show ?thesis by (simp add: calculate_black_scholes_degenerate)
  next
    case False
    then have "0 < swap' \<and> 0 < X_HAT"
      using assms adj by (intro tw_adjust_pos) simp_all
    then show ?thesis by (blast intro: bs_Inr_pos)
  qed
  then show ?thesis
    by (auto simp: turnbull_wakeman_unfold [OF v adj])
qed

theorem asian_no_error_witness:
  "(0::real) < 2300 \<and> (0::real) \<le> 2200 \<and> (0::real) < 2250 \<and>
   (\<exists>p. turnbull_wakeman logistic_dist (Known PUT) 10 1 28 (3/10) 2300 2200 2250 (1/100) = Inr p)"
  using asian_no_error [of 2300 2200 2250] by simp

text \<open>C19: while the averaging is in progress and the implied strike \<open>X_HAT\<close> on the
  open leg is positive, the Asian price is the vanilla price on the forward with strike
  \<open>X_HAT\<close>, scaled by the open ratio \<open>floating_ratio\<close> (= \<open>T_open / T_averaging\<close>).\<close>

theorem asian_in_progress:
  assumes "sd < pd" "pd < ed" "tw_vol pd sd ed sigma = Inr v"
    and "0 < strike * averaging_period sd ed / averaging_period pd ed
              - realized * (averaging_period sd ed - averaging_period pd ed) / averaging_period pd ed"
  shows "turnbull_wakeman N ot pd sd ed sigma forward realized strike r =
         map_sum id (\<lambda>res. bs_value res * floating_ratio pd sd ed)
           (calculate_black_scholes N ot forward
              (strike * averaging_period sd ed / averaging_period pd ed
                 - realized * (averaging_period sd ed - averaging_period pd ed) / averaging_period pd ed)
              (time_to_maturity pd ed) r 0 v)"
proof -
  have To: "min (averaging_period sd ed) (averaging_period pd ed) = averaging_period pd ed"
    using assms(1,2) by simp
  have adj: "tw_adjust pd sd ed (get_swap forward realized pd sd ed) forward realized strike
               (averaging_period sd ed) (min (averaging_period sd ed) (averaging_period pd ed))
             = (forward, strike * averaging_period sd ed / averaging_period pd ed
                 - realized * (averaging_period sd ed - averaging_period pd ed) / averaging_period pd ed,
                averaging_period pd ed / averaging_period sd ed)"
    using assms(1,2,4) by (simp add: tw_adjust_def To Let_def)
  show ?thesis
    using assms(1,2) by (simp add: turnbull_wakeman_unfold [OF assms(3) adj] floating_ratio_open)
qed

theorem asian_in_progress_witness:
  "(1::int) < 10 \<and> (10::int) < 28 \<and>
   tw_vol 10 1 28 (3/10) = Inr (sqrt (ln (tw_m (3/10) (time_to_maturity 10 28)
                                   (max 0 (time_to_maturity 10 1))) / time_to_maturity 10 28)) \<and>
   0 < 2250 * averaging_period 1 28 / averaging_period 10 28
         - 2200 * (averaging_period 1 28 - averaging_period 10 28) / averaging_period 10 28 \<and>
   turnbull_wakeman logistic_dist (Known CALL) 10 1 28 (3/10) 2300 2200 2250 (1/100) =
   map_sum id (\<lambda>res. bs_value res * floating_ratio 10 1 28)
     (calculate_black_scholes logistic_dist (Known CALL) 2300
        (2250 * averaging_period 1 28 / averaging_period 10 28
           - 2200 * (averaging_period 1 28 - averaging_period 10 28) / averaging_period 10 28)
        (time_to_maturity 10 28) (1/100) 0
        (sqrt (ln (tw_m (3/10) (time_to_maturity 10 28) (max 0 (time_to_maturity 10 1)))
               / time_to_maturity 10 28)))"
proof -
  have v: "tw_vol 10 1 28 (3/10) = Inr (sqrt (ln (tw_m (3/10) (time_to_maturity 10 28)
              (max 0 (time_to_maturity 10 1))) / time_to_maturity 10 28))"
    by (simp add: tw_vol_eq)
  have x: "0 < 2250 * averaging_period 1 28 / averaging_period 10 28
             - 2200 * (averaging_period 1 28 - averaging_period 10 28) / (averaging_period 10 28 :: real)"
    by (simp add: averaging_period_def)
  show ?thesis
    using asian_in_progress [OF _ _ v x, of logistic_dist "Known CALL" 2300 "1/100"] v x by simp
qed

text \<open>C20: before the averaging starts the Asian price is the plain vanilla price on the
  forward at the strike, with multiplier 1 and the Turnbull-Wakeman volatility.\<close>

theorem asian_not_started:
  assumes "pd \<le> sd" "pd \<le> ed" "tw_vol pd sd ed sigma = Inr v"
  shows "turnbull_wakeman N ot pd sd ed sigma forward realized strike r =
         map_sum id bs_value (calculate_black_scholes N ot forward strike (time_to_maturity pd ed) r 0 v)"
proof -
  have swap: "get_swap forward realized pd sd ed = forward"
    using assms(1,2) by (simp add: get_swap_def floating_ratio_def)
  have adj: "tw_adjust pd sd ed (get_swap forward realized pd sd ed) forward realized strike
               (averaging_period sd ed) (min (averaging_period sd ed) (averaging_period pd ed))
             = (forward, strike, 1)"
    using assms(1) by (simp add: tw_adjust_def swap)
  show ?thesis
    by (simp add: turnbull_wakeman_unfold [OF assms(3) adj])
qed

theorem asian_not_started_witness:
  "(0::int) \<le> 5 \<and> (0::int) \<le> 30 \<and> tw_vol 0 5 30 0 = Inr 0 \<and>
   turnbull_wakeman logistic_dist (Known PUT) 0 5 30 0 2300 2200 2250 (1/100) =
   map_sum id bs_value (calculate_black_scholes logistic_dist (Known PUT) 2300 2250
     (time_to_maturity 0 30) (1/100) 0 0)"
proof -
  have v: "tw_vol 0 5 30 0 = Inr 0" by (simp add: tw_vol_eq)
  show ?thesis using asian_not_started [OF _ _ v] v by simp
qed

text \<open>C21: in the in-progress fallback (\<open>X_HAT \<le> 0\<close>) the code keeps the blended
  swap, the strike and multiplier 1, and prices with the positive effective volatility
  and positive time to expiry, i.e. in the general Black-Scholes branch, not by the
  intrinsic value.\<close>

theorem asian_fallback_keeps_vol:
  assumes "sd < pd" "pd < ed" "sigma \<noteq> 0" "tw_vol pd sd ed sigma = Inr v"
    and "strike * averaging_period sd ed / averaging_period pd ed
           - realized * (averaging_period sd ed - averaging_period pd ed) / averaging_period pd ed \<le> 0"
  shows "0 < v \<and> 0 < time_to_maturity pd ed \<and>
         turnbull_wakeman N ot pd sd ed sigma forward realized strike r =
         map_sum id bs_value
           (calculate_black_scholes N ot (get_swap forward realized pd sd ed) strike
              (time_to_maturity pd ed) r 0 v)"
proof -
  have To: "min (averaging_period sd ed) (averaging_period pd ed) = averaging_period pd ed"
    using assms(1,2) by simp
  have adj: "tw_adjust pd sd ed (get_swap forward realized pd sd ed) forward realized strike
               (averaging_period sd ed) (min (averaging_period sd ed) (averaging_period pd ed))
             = (get_swap forward realized pd sd ed, strike, 1)"
    using assms(1,2,5) by (simp add: tw_adjust_def To Let_def)
  have "0 < v" by (rule tw_vol_pos [OF assms(3) assms(2) assms(4)])
  then show ?thesis
    using assms(2) by (simp add: turnbull_wakeman_unfold [OF assms(4) adj])
qed

theorem asian_fallback_keeps_vol_witness:
  "(1::int) < 10 \<and> (10::int) < 28 \<and> (3/10::real) \<noteq> 0 \<and>
   tw_vol 10 1 28 (3/10) = Inr (sqrt (ln (tw_m (3/10) (time_to_maturity 10 28)
                                   (max 0 (time_to_maturity 10 1))) / time_to_maturity 10 28)) \<and>
   100 * averaging_period 1 28 / averaging_period 10 28
     - 2200 * (averaging_period 1 28 - averaging_period 10 28) / averaging_period 10 28 \<le> 0 \<and>
   0 < sqrt (ln (tw_m (3/10) (time_to_maturity 10 28) (max 0 (time_to_maturity 10 1)))
             / time_to_maturity 10 28) \<and>
   0 < time_to_maturity 10 28 \<and>
   turnbull_wakeman logistic_dist (Known PUT) 10 1 28 (3/10) 2300 2200 100 (1/100) =
   map_sum id bs_value
     (calculate_black_scholes logistic_dist (Known PUT) (get_swap 2300 2200 10 1 28) 100
        (time_to_maturity 10 28) (1/100) 0
        (sqrt (ln (tw_m (3/10) (time_to_maturity 10 28) (max 0 (time_to_maturity 10 1)))
               / time_to_maturity 10 28)))"
proof -
  have v: "tw_vol 10 1 28 (3/10) = Inr (sqrt (ln (tw_m (3/10) (time_to_maturity 10 28)
              (max 0 (time_to_maturity 10 1))) / time_to_maturity 10 28))"
    by (simp add: tw_vol_eq)
  have x: "100 * averaging_period 1 28 / averaging_period 10 28
             - 2200 * (averaging_period 1 28 - averaging_period 10 28) / (averaging_period 10 28 :: real) \<le> 0"
    by (simp add: averaging_period_def)
  have s: "(3/10::real) \<noteq> 0" by simp
  show ?thesis
    using asian_fallback_keeps_vol [OF _ _ s v x, of logistic_dist "Known PUT" 2300 "1/100"] v x
    by simp
qed

end
